theory Spec2Isabelle
  imports Main "HOL-Library.Word"
begin

section \<open>The WebDAV server of webdavd/server.go\<close>

text \<open>
  A shallow embedding of \<^verbatim>\<open>src/webdavd/server.go\<close>: the TLS trust verifier
  (\<^verbatim>\<open>verifyTLSConnection\<close>), the request preprocessor
  (\<^verbatim>\<open>checkRequestMethod\<close>), the request pipeline (\<^verbatim>\<open>ServeHTTP\<close>), the
  authenticator (\<^verbatim>\<open>authenticate\<close>), the identity-level admission checks
  (\<^verbatim>\<open>validateUser\<close>), the proxy address resolution
  (\<^verbatim>\<open>checkRemoteAddress\<close>) and the outcome reporter
  (\<^verbatim>\<open>updateLoginMetrics\<close>).

  The file calls into packages that are not part of it (\<^verbatim>\<open>common\<close>,
  \<^verbatim>\<open>dataprovider\<close>, \<^verbatim>\<open>utils\<close>, \<^verbatim>\<open>metrics\<close>, \<^verbatim>\<open>xid\<close>,
  \<^verbatim>\<open>webdav\<close>, the Go standard library). What such a call returns is a field of
  the record \<open>env\<close> (an arbitrary function of the call's arguments); that the call was
  made is an \<open>event\<close> appended to the trace of the \<open>world\<close>. Shared mutable state
  the file reads and writes itself (the credential cache, the allocator of lock systems,
  the clock) is a field of the \<open>world\<close>. Requests are handled one at a time: the
  interleaving of goroutines and the recovery from a panic (lines 130-135) are not
  modelled. The calls of the logger in \<^verbatim>\<open>ServeHTTP\<close> and \<^verbatim>\<open>validateUser\<close>
  are events that hold the connection identifier passed to them; those of
  \<^verbatim>\<open>verifyTLSConnection\<close> are not modelled.
\<close>

subsection \<open>Errors\<close>

text \<open>
  Every error value the file creates or compares against. \<open>err401\<close> is the package
  variable of line 30; \<open>ErrChainUnverifiable\<close> is the \<^verbatim>\<open>errors.New\<close> of line 92;
  the constructors with arguments are the \<^verbatim>\<open>fmt.Errorf\<close> values of
  \<^verbatim>\<open>validateUser\<close> with the values they are formatted from;
  \<open>RecordNotFoundError\<close> is an error of the dynamic type
  \<^verbatim>\<open>*dataprovider.RecordNotFoundError\<close>, \<open>OtherError\<close> any other error a
  collaborator returns.
\<close>

datatype error =
    err401
  | ErrChainUnverifiable
  | ErrCrtRevoked
  | ErrConnectionDenied
  | ErrInvalidCredentials
  | RecordNotFoundError string
  | OtherError string
  | ErrInvalidHomeDir string
  | ErrProtocolNotAllowed string
  | ErrLoginMethodNotAllowed string
  | ErrTooManySessions int
  | ErrOverlappedFolders
  | ErrAddressNotAllowed string string

subsection \<open>The TLS trust verifier\<close>

text \<open>
  A certificate is identified by a number. \<^verbatim>\<open>certMgr\<close> is a package variable that
  may be nil; when it is set, its method \<^verbatim>\<open>IsRevoked(crt, caCrt)\<close> takes two
  pointers that may be nil, hence the options.
\<close>

type_synonym Certificate = nat

type_synonym CertManager = "Certificate option \<Rightarrow> Certificate option \<Rightarrow> bool"

record ConnectionState =
  PeerCertificates :: "Certificate list"
  VerifiedChains :: "Certificate list list"

text \<open>Lines 84-89: the presented leaf certificate, nil when the peer sent none.\<close>

definition clientCrt :: "ConnectionState \<Rightarrow> Certificate option" where
  "clientCrt state =
     (if length (PeerCertificates state) > 0 then Some (hd (PeerCertificates state)) else None)"

text \<open>Lines 95-98: the last certificate of a verified chain, nil for an empty chain.\<close>

definition caCrt :: "Certificate list \<Rightarrow> Certificate option" where
  "caCrt verifiedChain =
     (if length verifiedChain > 0 then Some (verifiedChain ! (length verifiedChain - 1)) else None)"

text \<open>Lines 94-103: the loop over the verified chains, left at the first revocation.\<close>

fun verifyChains :: "CertManager \<Rightarrow> Certificate option \<Rightarrow> Certificate list list \<Rightarrow> error option" where
  "verifyChains IsRevoked crt [] = None"
| "verifyChains IsRevoked crt (verifiedChain # rest) =
     (if IsRevoked crt (caCrt verifiedChain) then Some ErrCrtRevoked
      else verifyChains IsRevoked crt rest)"

definition verifyTLSConnection :: "CertManager option \<Rightarrow> ConnectionState \<Rightarrow> error option" where
  "verifyTLSConnection certMgr state =
     (case certMgr of
        None \<Rightarrow> None
      | Some IsRevoked \<Rightarrow>
          if length (VerifiedChains state) = 0 then Some ErrChainUnverifiable
          else verifyChains IsRevoked (clientCrt state) (VerifiedChains state))"

subsection \<open>Requests, responses and headers\<close>

text \<open>
  \<^verbatim>\<open>http.Header\<close> is a \<^verbatim>\<open>map[string][]string\<close> whose keys are in canonical
  form. \<^verbatim>\<open>Get\<close> returns the first value of a key and the empty string when the key
  is missing or has no value; \<^verbatim>\<open>Add\<close> appends a value; \<^verbatim>\<open>Set\<close> replaces the
  values by one. The keys below are written in the canonical form
  \<^verbatim>\<open>http.CanonicalHeaderKey\<close> gives them (lines 31-32: \<^verbatim>\<open>X-Real-IP\<close> becomes
  \<^verbatim>\<open>X-Real-Ip\<close>).
\<close>

type_synonym Header = "string \<rightharpoonup> string list"

definition headerGet :: "Header \<Rightarrow> string \<Rightarrow> string" where
  "headerGet h key = (case h key of None \<Rightarrow> [] | Some [] \<Rightarrow> [] | Some (v # vs) \<Rightarrow> v)"

definition headerAdd :: "Header \<Rightarrow> string \<Rightarrow> string \<Rightarrow> Header" where
  "headerAdd h key v = h(key \<mapsto> (case h key of None \<Rightarrow> [] | Some vs \<Rightarrow> vs) @ [v])"

definition headerSet :: "Header \<Rightarrow> string \<Rightarrow> string \<Rightarrow> Header" where
  "headerSet h key v = h(key \<mapsto> [v])"

definition xForwardedFor :: string where
  "xForwardedFor = ''X-Forwarded-For''"

definition xRealIP :: string where
  "xRealIP = ''X-Real-Ip''"

record Request =
  Method :: string
  URLPath :: string
  Header :: Header
  RemoteAddr :: string

text \<open>
  What \<^verbatim>\<open>ServeHTTP\<close> writes to its \<^verbatim>\<open>http.ResponseWriter\<close>. \<open>ErrorText err\<close> is
  the body \<^verbatim>\<open>http.Error(w, err.Error(), code)\<close> prints: the text of the error and a
  newline.
\<close>

datatype body = ErrorText error | Bytes string

record Response =
  StatusCode :: nat
  RespHeader :: Header
  Body :: body

text \<open>\<^verbatim>\<open>http.Error\<close> of the standard library, on a writer whose header map is \<open>h\<close>.\<close>

definition httpError :: "Header \<Rightarrow> error \<Rightarrow> nat \<Rightarrow> Response" where
  "httpError h err code =
     \<lparr>StatusCode = code,
      RespHeader = headerSet (headerSet h ''Content-Type'' ''text/plain; charset=utf-8'')
                     ''X-Content-Type-Options'' ''nosniff'',
      Body = ErrorText err\<rparr>"

subsection \<open>Users, cached users, connections\<close>

text \<open>
  The fields of \<^verbatim>\<open>dataprovider.User\<close> the file reads (\<open>DeniedProtocols\<close> is
  \<^verbatim>\<open>Filters.DeniedProtocols\<close>, \<open>Provider\<close> is \<^verbatim>\<open>FsConfig.Provider\<close>), and the
  zero value of line 202.
\<close>

record User =
  Username :: string
  HomeDir :: string
  DeniedProtocols :: "string list"
  MaxSessions :: int
  Provider :: int
  UID :: int
  GID :: int

definition zeroUser :: User where
  "zeroUser = \<lparr>Username = [], HomeDir = [], DeniedProtocols = [], MaxSessions = 0,
                Provider = 0, UID = 0, GID = 0\<rparr>"

text \<open>
  A \<^verbatim>\<open>webdav.LockSystem\<close> returned by \<^verbatim>\<open>webdav.NewMemLS()\<close> is a pointer to a
  new object: it is identified by its address, a number. Times are nanoseconds; an
  \<open>Expiration\<close> of \<open>None\<close> is the zero \<^verbatim>\<open>time.Time\<close>.
\<close>

type_synonym LockSystem = nat

record CachedUser =
  User :: User
  Password :: string
  LockSystem :: LockSystem
  Expiration :: "int option"

type_synonym Filesystem = nat

record Connection =
  ID :: string
  ConnUser :: User
  Fs :: Filesystem

record FileInfo =
  IsDir :: bool

subsection \<open>Collaborators, events and the world\<close>

datatype HostEvent = HostEventLoginFailed | HostEventUserNotFound

datatype LogLevel = LevelDebug | LevelWarn

text \<open>
  One event per call of a collaborator, with the arguments of the call. \<open>EvLog\<close> is a
  call of the logger with the connection identifier it is given.
\<close>

datatype event =
    EvIsNewConnectionAllowed
  | EvLog LogLevel string
  | EvIsBanned string
  | EvExecutePostConnectHook string string
  | EvGetCachedWebDAVUser string
  | EvRemoveCachedWebDAVUser string
  | EvCheckUserAndPass string string string string
  | EvNewMemLS
  | EvCacheWebDAVUser CachedUser int
  | EvGetFilesystem User string
  | EvCheckRootPath Filesystem string int int
  | EvClose Filesystem
  | EvAddLoginAttempt string
  | EvConnectionFailedLog string string string string error
  | EvAddDefenderEvent string HostEvent
  | EvAddLoginResult string "error option"
  | EvExecutePostLoginHook User string string string "error option"
  | EvXidNew
  | EvGetActiveSessions string
  | EvGetQuotaTracking
  | EvConnectionsAdd string
  | EvConnectionsRemove string
  | EvUpdateLastLogin User
  | EvStat string string
  | EvHandlerServeHTTP Request "LockSystem option"

text \<open>
  What the collaborators answer, and the constants and the configuration the file reads
  from other packages. \<open>parseBasicAuth\<close> is the decoder behind
  \<^verbatim>\<open>http.Request.BasicAuth\<close>; \<open>IsAbs\<close>, \<open>Clean\<close> and \<open>TrimSpace\<close> are
  \<^verbatim>\<open>filepath.IsAbs\<close>, \<^verbatim>\<open>path.Clean\<close> and \<^verbatim>\<open>strings.TrimSpace\<close>;
  \<open>xidNew n\<close> is the text of the \<open>n\<close>-th identifier \<^verbatim>\<open>xid.New()\<close> hands out;
  \<open>ExpirationTime\<close> and \<open>MaxSize\<close> are \<^verbatim>\<open>s.config.Cache.Users\<close>;
  \<open>CacheWebDAVUser\<close> is the cache after \<^verbatim>\<open>dataprovider.CacheWebDAVUser\<close>, whose
  eviction policy the file does not fix.
\<close>

record env =
  ProxyProtocol :: int
  ProtocolWebDAV :: string
  LoginMethodPassword :: string
  SFTPFilesystemProvider :: int
  ExpirationTime :: int
  MaxSize :: int
  IsNewConnectionAllowed :: bool
  GetIPFromRemoteAddress :: "string \<Rightarrow> string"
  IsBanned :: "string \<Rightarrow> bool"
  ExecutePostConnectHook :: "string \<Rightarrow> string \<Rightarrow> error option"
  parseBasicAuth :: "string \<Rightarrow> (string \<times> string) option"
  CheckUserAndPass :: "string \<Rightarrow> string \<Rightarrow> string \<Rightarrow> string \<Rightarrow> User \<times> error option"
  CacheWebDAVUser :: "CachedUser \<Rightarrow> int \<Rightarrow> (string \<rightharpoonup> CachedUser) \<Rightarrow> (string \<rightharpoonup> CachedUser)"
  GetFilesystem :: "User \<Rightarrow> string \<Rightarrow> error + Filesystem"
  xidNew :: "nat \<Rightarrow> string"
  IsAbs :: "string \<Rightarrow> bool"
  IsLoginMethodAllowed :: "User \<Rightarrow> string \<Rightarrow> bool"
  GetActiveSessions :: "string \<Rightarrow> int"
  GetQuotaTracking :: int
  HasOverlappedMappedPaths :: "User \<Rightarrow> bool"
  IsLoginFromAddrAllowed :: "User \<Rightarrow> string \<Rightarrow> bool"
  Clean :: "string \<Rightarrow> string"
  Stat :: "Connection \<Rightarrow> string \<Rightarrow> error + FileInfo"
  TrimSpace :: "string \<Rightarrow> string"

record world =
  cache :: "string \<rightharpoonup> CachedUser"
  now :: int
  nextLockSystem :: nat
  xidCount :: nat
  trace :: "event list"

definition emit :: "event \<Rightarrow> world \<Rightarrow> world" where
  "emit ev w = w\<lparr>trace := trace w @ [ev]\<rparr>"

text \<open>The events a run from the world \<open>w\<close> to the world \<open>w'\<close> has added.\<close>

definition eventsSince :: "world \<Rightarrow> world \<Rightarrow> event list" where
  "eventsSince w w' = drop (length (trace w)) (trace w')"

subsection \<open>The outcome reporter\<close>

text \<open>Lines 334-346.\<close>

definition updateLoginMetrics :: "env \<Rightarrow> User \<Rightarrow> string \<Rightarrow> error option \<Rightarrow> world \<Rightarrow> world" where
  "updateLoginMetrics e user ip err w =
     (let w1 = emit (EvAddLoginAttempt (LoginMethodPassword e)) w;
          w2 = (case err of
                  None \<Rightarrow> w1
                | Some er \<Rightarrow>
                    emit (EvAddDefenderEvent ip
                            (case er of RecordNotFoundError m \<Rightarrow> HostEventUserNotFound
                                      | _ \<Rightarrow> HostEventLoginFailed))
                      (emit (EvConnectionFailedLog (Username user) ip (LoginMethodPassword e)
                               (ProtocolWebDAV e) er) w1));
          w3 = emit (EvAddLoginResult (LoginMethodPassword e) err) w2
      in emit (EvExecutePostLoginHook user (LoginMethodPassword e) ip (ProtocolWebDAV e) err) w3)"

text \<open>
  The events of the outcome reporter, and the events one call of
  \<^verbatim>\<open>updateLoginMetrics\<close> adds (lemma \<open>updateLoginMetrics_eq\<close> below).
\<close>

fun isReporterEvent :: "event \<Rightarrow> bool" where
  "isReporterEvent (EvAddLoginAttempt m) = True"
| "isReporterEvent (EvConnectionFailedLog u ip m p er) = True"
| "isReporterEvent (EvAddDefenderEvent ip ev) = True"
| "isReporterEvent (EvAddLoginResult m err) = True"
| "isReporterEvent (EvExecutePostLoginHook u m ip p err) = True"
| "isReporterEvent ev = False"

definition reportEvents :: "env \<Rightarrow> User \<Rightarrow> string \<Rightarrow> error option \<Rightarrow> event list" where
  "reportEvents e user ip err =
     EvAddLoginAttempt (LoginMethodPassword e)
     # (case err of
          None \<Rightarrow> []
        | Some er \<Rightarrow>
            [EvConnectionFailedLog (Username user) ip (LoginMethodPassword e) (ProtocolWebDAV e) er,
             EvAddDefenderEvent ip
               (case er of RecordNotFoundError m \<Rightarrow> HostEventUserNotFound | _ \<Rightarrow> HostEventLoginFailed)])
     @ [EvAddLoginResult (LoginMethodPassword e) err,
        EvExecutePostLoginHook user (LoginMethodPassword e) ip (ProtocolWebDAV e) err]"

subsection \<open>The proxy address resolution\<close>

text \<open>
  \<^verbatim>\<open>strings.Index(s, sep)\<close>: the index of the first occurrence of \<open>sep\<close> in
  \<open>s\<close>, or \<open>-1\<close>.
\<close>

primrec stringsIndex :: "string \<Rightarrow> string \<Rightarrow> int" where
  "stringsIndex [] sep = (if sep = [] then 0 else -1)"
| "stringsIndex (c # cs) sep =
     (if take (length sep) (c # cs) = sep then 0
      else (let i = stringsIndex cs sep in if i = -1 then -1 else i + 1))"

text \<open>Lines 312-332. The request is changed in place: the model returns the new one.\<close>

definition checkRemoteAddress :: "env \<Rightarrow> Request \<Rightarrow> Request" where
  "checkRemoteAddress e r =
     (if ProxyProtocol e \<noteq> 0 then r
      else
        let xrip = headerGet (Header r) xRealIP;
            ip = (if xrip \<noteq> [] then xrip
                  else
                    let xff = headerGet (Header r) xForwardedFor in
                    if xff \<noteq> [] then
                      (let i = stringsIndex xff '', '';
                           i = (if i = -1 then int (length xff) else i)
                       in TrimSpace e (take (nat i) xff))
                    else [])
        in if length ip > 0 then r\<lparr>RemoteAddr := ip\<rparr> else r)"

subsection \<open>The identity-level admission checks\<close>

text \<open>
  Modelled from the spec: \<^verbatim>\<open>utils.IsStringInSlice\<close> of the package utils is not in
  the file. The spec: the identity's denied-protocol set contains this protocol.
\<close>

definition IsStringInSlice :: "string \<Rightarrow> string list \<Rightarrow> bool" where
  [simp]: "IsStringInSlice obj list = (obj \<in> set list)"

text \<open>
  Lines 250-285. The registry of connections is asked for the active sessions only when
  \<open>MaxSessions\<close> is positive (line 267), the quota tracking only when the earlier
  checks passed (line 275).
\<close>

definition validateUser :: "env \<Rightarrow> User \<Rightarrow> Request \<Rightarrow> world \<Rightarrow> (string \<times> error option) \<times> world" where
  "validateUser e user r w =
     (let connID = xidNew e (xidCount w);
          w0 = emit EvXidNew (w\<lparr>xidCount := Suc (xidCount w)\<rparr>);
          connectionID = ProtocolWebDAV e @ ''_'' @ connID
      in
        if \<not> IsAbs e (HomeDir user) then
          ((connID, Some (ErrInvalidHomeDir (HomeDir user))), emit (EvLog LevelWarn connectionID) w0)
        else if IsStringInSlice (ProtocolWebDAV e) (DeniedProtocols user) then
          ((connID, Some (ErrProtocolNotAllowed (Username user))),
           emit (EvLog LevelDebug connectionID) w0)
        else if \<not> IsLoginMethodAllowed e user (LoginMethodPassword e) then
          ((connID, Some (ErrLoginMethodNotAllowed (Username user))),
           emit (EvLog LevelDebug connectionID) w0)
        else
          let w1 = (if MaxSessions user > 0 then emit (EvGetActiveSessions (Username user)) w0
                    else w0);
              activeSessions = GetActiveSessions e (Username user)
          in
            if MaxSessions user > 0 \<and> activeSessions \<ge> MaxSessions user then
              ((connID, Some (ErrTooManySessions activeSessions)), emit (EvLog LevelDebug connID) w1)
            else
              let w2 = emit EvGetQuotaTracking w1 in
              if GetQuotaTracking e > 0 \<and> HasOverlappedMappedPaths e user then
                ((connID, Some ErrOverlappedFolders), emit (EvLog LevelDebug connectionID) w2)
              else if \<not> IsLoginFromAddrAllowed e user (RemoteAddr r) then
                ((connID, Some (ErrAddressNotAllowed (Username user) (RemoteAddr r))),
                 emit (EvLog LevelDebug connectionID) w2)
              else ((connID, None), w2))"

subsection \<open>The credential cache and the authenticator\<close>

text \<open>
  Modelled from the spec: \<^verbatim>\<open>CachedUser.IsExpired\<close> of the package dataprovider is
  not in the file. The spec: a cached credential is returned as valid only if its
  expiration is unset or strictly in the future. \<open>t\<close> is the time of the call.
\<close>

definition IsExpired :: "int \<Rightarrow> CachedUser \<Rightarrow> bool" where
  "IsExpired t cachedUser =
     (case Expiration cachedUser of None \<Rightarrow> False | Some ex \<Rightarrow> \<not> t < ex)"

text \<open>
  Modelled from the spec: \<^verbatim>\<open>dataprovider.GetCachedWebDAVUser\<close> and
  \<^verbatim>\<open>dataprovider.RemoveCachedWebDAVUser\<close> are not in the file. The spec: the cache
  maps the name of an identity to its cached credential, \<^verbatim>\<open>get\<close> returns the
  credential or absent, \<^verbatim>\<open>remove\<close> removes it.
\<close>

definition GetCachedWebDAVUser :: "string \<Rightarrow> world \<Rightarrow> CachedUser option \<times> world" where
  "GetCachedWebDAVUser username w = (cache w username, emit (EvGetCachedWebDAVUser username) w)"

definition RemoveCachedWebDAVUser :: "string \<Rightarrow> world \<Rightarrow> world" where
  "RemoveCachedWebDAVUser username w =
     emit (EvRemoveCachedWebDAVUser username) (w\<lparr>cache := (cache w)(username := None)\<rparr>)"

text \<open>\<^verbatim>\<open>webdav.NewMemLS()\<close>: a new object at an address not handed out before.\<close>

definition NewMemLS :: "world \<Rightarrow> LockSystem \<times> world" where
  "NewMemLS w = (nextLockSystem w, emit EvNewMemLS (w\<lparr>nextLockSystem := Suc (nextLockSystem w)\<rparr>))"

text \<open>
  Line 235: \<^verbatim>\<open>time.Duration(n) * time.Minute\<close>, a product of 64-bit integers that
  wraps around.
\<close>

definition minutes :: "int \<Rightarrow> int" where
  "minutes n = sint (word_of_int n * 60000000000 :: 64 word)"

text \<open>The four results of \<^verbatim>\<open>authenticate\<close>, in the order of line 201.\<close>

record AuthResult =
  authUser :: User
  isCached :: bool
  lockSystem :: "LockSystem option"
  authErr :: "error option"

text \<open>
  \<^verbatim>\<open>http.Request.BasicAuth\<close>: no \<^verbatim>\<open>Authorization\<close> header, no credentials;
  otherwise what the decoder makes of the header.
\<close>

definition BasicAuth :: "env \<Rightarrow> Request \<Rightarrow> (string \<times> string) option" where
  "BasicAuth e r =
     (let auth = headerGet (Header r) ''Authorization'' in
      if auth = [] then None else parseBasicAuth e auth)"

text \<open>
  Lines 221-247: the full verification against the identity provider, which the
  function reaches after a cache miss (line 209) and after the removal of an expired
  entry (line 212).
\<close>

definition authenticate_verify :: "env \<Rightarrow> string \<Rightarrow> string \<Rightarrow> string \<Rightarrow> world \<Rightarrow> AuthResult \<times> world" where
  "authenticate_verify e username password ip w =
     (let w1 = emit (EvCheckUserAndPass username password ip (ProtocolWebDAV e)) w;
          (user, err) = CheckUserAndPass e username password ip (ProtocolWebDAV e)
      in
        case err of
          Some er \<Rightarrow>
            (let user = user\<lparr>Username := username\<rparr> in
             (\<lparr>authUser = user, isCached = False, lockSystem = None, authErr = Some er\<rparr>,
              updateLoginMetrics e user ip (Some er) w1))
        | None \<Rightarrow>
            (let (ls, w2) = NewMemLS w1 in
             if password \<noteq> [] then
               let cachedUser = \<lparr>User = user, Password = password, LockSystem = ls,
                                 Expiration = (if ExpirationTime e > 0
                                               then Some (now w2 + minutes (ExpirationTime e))
                                               else None)\<rparr>;
                   w3 = emit (EvCacheWebDAVUser cachedUser (MaxSize e))
                          (w2\<lparr>cache := CacheWebDAVUser e cachedUser (MaxSize e) (cache w2)\<rparr>);
                   w4 = (if Provider user \<noteq> SFTPFilesystemProvider e then
                           (let w5 = emit (EvGetFilesystem user ''temp'') w3 in
                            case GetFilesystem e user ''temp'' of
                              Inr tempFs \<Rightarrow>
                                emit (EvClose tempFs)
                                  (emit (EvCheckRootPath tempFs (Username user) (UID user) (GID user)) w5)
                            | Inl er \<Rightarrow> w5)
                         else w3)
               in (\<lparr>authUser = user, isCached = False, lockSystem = Some ls, authErr = None\<rparr>, w4)
             else (\<lparr>authUser = user, isCached = False, lockSystem = Some ls, authErr = None\<rparr>, w2)))"

text \<open>Lines 201-248.\<close>

definition authenticate :: "env \<Rightarrow> Request \<Rightarrow> string \<Rightarrow> world \<Rightarrow> AuthResult \<times> world" where
  "authenticate e r ip w =
     (case BasicAuth e r of
        None \<Rightarrow>
          (\<lparr>authUser = zeroUser, isCached = False, lockSystem = None, authErr = Some err401\<rparr>, w)
      | Some (username, password) \<Rightarrow>
          (let (result, w1) = GetCachedWebDAVUser username w in
           case result of
             Some cachedUser \<Rightarrow>
               if IsExpired (now w1) cachedUser then
                 authenticate_verify e username password ip (RemoveCachedWebDAVUser username w1)
               else if password \<noteq> [] \<and> Password cachedUser = password then
                 (\<lparr>authUser = User cachedUser, isCached = True,
                   lockSystem = Some (LockSystem cachedUser), authErr = None\<rparr>, w1)
               else
                 (\<lparr>authUser = zeroUser, isCached = False, lockSystem = None,
                   authErr = Some ErrInvalidCredentials\<rparr>,
                  updateLoginMetrics e (User cachedUser) ip (Some ErrInvalidCredentials) w1)
           | None \<Rightarrow> authenticate_verify e username password ip w1))"

subsection \<open>The request preprocessor\<close>

text \<open>Lines 110-126. The request is changed in place: the model returns the new one.\<close>

definition checkRequestMethod :: "env \<Rightarrow> Request \<Rightarrow> Connection \<Rightarrow> world \<Rightarrow> (bool \<times> Request) \<times> world" where
  "checkRequestMethod e r connection w =
     (if Method r = ''GET'' \<or> Method r = ''HEAD'' then
        let p = Clean e (URLPath r);
            w1 = emit (EvStat (ID connection) p) w
        in
          case Stat e connection p of
            Inr info \<Rightarrow>
              if IsDir info then
                if Method r = ''HEAD'' then ((True, r), w1)
                else
                  let r1 = r\<lparr>Method := ''PROPFIND''\<rparr>;
                      r2 = (if headerGet (Header r1) ''Depth'' = [] then
                              r1\<lparr>Header := headerAdd (Header r1) ''Depth'' ''1''\<rparr>
                            else r1)
                  in ((False, r2), w1)
              else ((False, r), w1)
          | Inl er \<Rightarrow> ((False, r), w1)
      else ((False, r), w))"

subsection \<open>The request pipeline\<close>

text \<open>
  The outcome of \<^verbatim>\<open>ServeHTTP\<close>: either the function wrote the response itself, or it
  handed the request and the lock system to \<^verbatim>\<open>webdav.Handler\<close> (line 198), which
  wrote it.
\<close>

datatype served = Written Response | Handler Request "LockSystem option"

definition wwwAuthenticate :: string where
  "wwwAuthenticate = ''Basic realm='' @ [CHR 0x22] @ ''SFTPGo WebDAV'' @ [CHR 0x22]"

text \<open>
  Lines 129-199. The result holds the request as the function leaves it: the function
  changes the request it is given in place (lines 141 and 186).
\<close>

definition ServeHTTP :: "env \<Rightarrow> Request \<Rightarrow> world \<Rightarrow> served \<times> Request \<times> world" where
  "ServeHTTP e r w =
     (let w1 = emit EvIsNewConnectionAllowed w in
      if \<not> IsNewConnectionAllowed e then
        (Written (httpError Map.empty ErrConnectionDenied 503), r, emit (EvLog LevelDebug []) w1)
      else
        let r1 = checkRemoteAddress e r;
            ipAddr = GetIPFromRemoteAddress e (RemoteAddr r1);
            w2 = emit (EvIsBanned ipAddr) w1
        in
          if IsBanned e ipAddr then
            (Written (httpError Map.empty ErrConnectionDenied 403), r1, w2)
          else
            let w3 = emit (EvExecutePostConnectHook ipAddr (ProtocolWebDAV e)) w2 in
            case ExecutePostConnectHook e ipAddr (ProtocolWebDAV e) of
              Some er \<Rightarrow> (Written (httpError Map.empty ErrConnectionDenied 403), r1, w3)
            | None \<Rightarrow>
                (let (auth, w4) = authenticate e r1 ipAddr w3 in
                 case authErr auth of
                   Some er \<Rightarrow>
                     (Written (httpError (headerSet Map.empty ''Www-Authenticate'' wwwAuthenticate)
                                 err401 401), r1, w4)
                 | None \<Rightarrow>
                     (let user = authUser auth;
                          ((connectionID, verr), w5) = validateUser e user r1 w4
                      in
                        case verr of
                          Some er \<Rightarrow>
                            (Written (httpError Map.empty er 403), r1,
                             updateLoginMetrics e user ipAddr (Some er) w5)
                        | None \<Rightarrow>
                            (let w6 = emit (EvGetFilesystem user connectionID) w5 in
                             case GetFilesystem e user connectionID of
                               Inl er \<Rightarrow>
                                 (Written (httpError Map.empty er 500), r1,
                                  updateLoginMetrics e user ipAddr (Some er) w6)
                             | Inr fs \<Rightarrow>
                                 (let w7 = updateLoginMetrics e user ipAddr None w6;
                                      connection = \<lparr>ID = connectionID, ConnUser = user, Fs = fs\<rparr>;
                                      w8 = emit (EvConnectionsAdd connectionID) w7;
                                      w9 = emit (EvUpdateLastLogin user) w8;
                                      ((handled, r2), w10) = checkRequestMethod e r1 connection w9
                                  in
                                    if handled then
                                      (Written \<lparr>StatusCode = 207,
                                                RespHeader = headerSet Map.empty ''Content-Type''
                                                               ''text/xml; charset=utf-8'',
                                                Body = Bytes []\<rparr>,
                                       r2, emit (EvConnectionsRemove connectionID) w10)
                                    else
                                      (Handler r2 (lockSystem auth), r2,
                                       emit (EvConnectionsRemove connectionID)
                                         (emit (EvHandlerServeHTTP r2 (lockSystem auth)) w10)))))))"

subsection \<open>A concrete deployment\<close>

text \<open>
  Concrete inputs on which the theorems below are evaluated: a user, a deployment that
  knows her, a request of hers and a world with an empty cache. The deployment is not
  behind a proxy protocol, bans one address, accepts the password \<^verbatim>\<open>secret\<close> for
  \<^verbatim>\<open>alice\<close>, holds a directory \<^verbatim>\<open>/docs\<close> with a file in it, and strips blanks for
  \<open>TrimSpace\<close>. The \<^verbatim>\<open>Authorization\<close> headers are the base64 codes of
  \<^verbatim>\<open>alice:secret\<close>, \<^verbatim>\<open>alice:wrong\<close> and \<^verbatim>\<open>alice:\<close>.
\<close>

definition alice :: User where
  "alice = \<lparr>Username = ''alice'', HomeDir = ''/srv/alice'', DeniedProtocols = [],
             MaxSessions = 2, Provider = 0, UID = 1000, GID = 1000\<rparr>"

definition exampleEnv :: env where
  "exampleEnv =
     \<lparr>ProxyProtocol = 0,
      ProtocolWebDAV = ''DAV'',
      LoginMethodPassword = ''password'',
      SFTPFilesystemProvider = 5,
      ExpirationTime = 0,
      MaxSize = 50,
      IsNewConnectionAllowed = True,
      GetIPFromRemoteAddress = takeWhile (\<lambda>c. c \<noteq> CHR '':''),
      IsBanned = (\<lambda>ip. ip = ''203.0.113.66''),
      ExecutePostConnectHook = (\<lambda>ip protocol. None),
      parseBasicAuth = (\<lambda>auth.
         if auth = ''Basic YWxpY2U6c2VjcmV0'' then Some (''alice'', ''secret'')
         else if auth = ''Basic YWxpY2U6d3Jvbmc='' then Some (''alice'', ''wrong'')
         else if auth = ''Basic YWxpY2U6'' then Some (''alice'', [])
         else None),
      CheckUserAndPass = (\<lambda>username password ip protocol.
         if username = ''alice'' \<and> password = ''secret'' then (alice, None)
         else if username = ''alice'' then (zeroUser, Some ErrInvalidCredentials)
         else (zeroUser, Some (RecordNotFoundError username))),
      CacheWebDAVUser = (\<lambda>cachedUser maxSize m. m(Username (User cachedUser) \<mapsto> cachedUser)),
      GetFilesystem = (\<lambda>user connID. Inr 3),
      xidNew = (\<lambda>n. ''c5q8o3v2a1b4d6e7f9g'' @ [if n = 0 then CHR ''0'' else CHR ''1'']),
      IsAbs = (\<lambda>p. take 1 p = ''/''),
      IsLoginMethodAllowed = (\<lambda>user m. True),
      GetActiveSessions = (\<lambda>username. 0),
      GetQuotaTracking = 0,
      HasOverlappedMappedPaths = (\<lambda>user. False),
      IsLoginFromAddrAllowed = (\<lambda>user addr. True),
      Clean = (\<lambda>p. p),
      Stat = (\<lambda>connection p.
         if p = ''/docs'' then Inr \<lparr>IsDir = True\<rparr>
         else if p = ''/docs/a.txt'' then Inr \<lparr>IsDir = False\<rparr>
         else Inl (OtherError ''file does not exist'')),
      TrimSpace = (\<lambda>s. rev (dropWhile (\<lambda>c. c = CHR '' '') (rev (dropWhile (\<lambda>c. c = CHR '' '') s))))\<rparr>"

definition exampleRequest :: Request where
  "exampleRequest =
     \<lparr>Method = ''GET'', URLPath = ''/docs'',
      Header = [''Authorization'' \<mapsto> [''Basic YWxpY2U6c2VjcmV0'']],
      RemoteAddr = ''198.51.100.7:40312''\<rparr>"

definition exampleWorld :: world where
  "exampleWorld = \<lparr>cache = Map.empty, now = 1000, nextLockSystem = 0, xidCount = 0, trace = []\<rparr>"

text \<open>
  A world whose cache holds alice's credential, stored with the lock system 7 and
  expiring at the time 2000.
\<close>

definition cachedAlice :: CachedUser where
  "cachedAlice = \<lparr>User = alice, Password = ''secret'', LockSystem = 7, Expiration = Some 2000\<rparr>"

definition cachedWorld :: world where
  "cachedWorld = \<lparr>cache = [''alice'' \<mapsto> cachedAlice], now = 1000, nextLockSystem = 8,
                   xidCount = 0, trace = []\<rparr>"

subsection \<open>Theorems: the TLS trust verifier\<close>

lemma verifyChains_eq:
  "verifyChains IsRevoked crt vcs =
     (if \<exists>vc \<in> set vcs. IsRevoked crt (caCrt vc) then Some ErrCrtRevoked else None)"
  by (induction vcs) auto

text \<open>
  C1. With a revocation authority configured and at least one verified chain, the
  verifier fails with the certificate-revoked error as soon as the presented leaf
  certificate is revoked under the trust anchor (the last element) of any one of the
  verified chains, whatever the other chains say, and passes when it is revoked under
  none; with no verified chain it fails with the chain-unverifiable error; with no
  revocation authority it always passes.
\<close>

theorem verifyTLSConnection_revocation:
  "(VerifiedChains state \<noteq> [] \<longrightarrow>
      verifyTLSConnection (Some IsRevoked) state =
        (if \<exists>vc \<in> set (VerifiedChains state). IsRevoked (clientCrt state) (caCrt vc)
         then Some ErrCrtRevoked else None))
   \<and> (VerifiedChains state = [] \<longrightarrow>
      verifyTLSConnection (Some IsRevoked) state = Some ErrChainUnverifiable)
   \<and> verifyTLSConnection None state = None"
  by (simp add: verifyTLSConnection_def verifyChains_eq)

text \<open>
  The leaf 7 is clean under the anchor 1 of the first chain and revoked under the anchor
  2 of the second one.
\<close>

theorem verifyTLSConnection_revocation_witness:
  "verifyTLSConnection (Some (\<lambda>crt ca. crt = Some 7 \<and> ca = Some 2))
      \<lparr>PeerCertificates = [7, 5], VerifiedChains = [[7, 5, 1], [7, 6, 2]]\<rparr> = Some ErrCrtRevoked
   \<and> caCrt [7, 5, 1] = Some 1 \<and> caCrt [7, 6, 2] = Some 2
   \<and> clientCrt \<lparr>PeerCertificates = [7, 5], VerifiedChains = [[7, 5, 1], [7, 6, 2]]\<rparr> = Some 7
   \<and> verifyTLSConnection (Some (\<lambda>crt ca. crt = Some 7 \<and> ca = Some 2))
      \<lparr>PeerCertificates = [7, 5], VerifiedChains = []\<rparr> = Some ErrChainUnverifiable
   \<and> verifyTLSConnection None
      \<lparr>PeerCertificates = [7, 5], VerifiedChains = [[7, 5, 1], [7, 6, 2]]\<rparr> = None"
  using verifyTLSConnection_revocation
    [of "\<lparr>PeerCertificates = [7, 5], VerifiedChains = [[7, 5, 1], [7, 6, 2]]\<rparr>"
        "\<lambda>crt ca. crt = Some 7 \<and> ca = Some 2"]
    verifyTLSConnection_revocation
    [of "\<lparr>PeerCertificates = [7, 5], VerifiedChains = []\<rparr>"
        "\<lambda>crt ca. crt = Some 7 \<and> ca = Some 2"]
  by (simp add: caCrt_def clientCrt_def)

subsection \<open>Theorems: the identity-level admission checks\<close>

text \<open>
  C5. The identity-level checks run in the order: home directory not absolute, protocol
  denied, password login not allowed, too many sessions (asked of the registry only
  when the ceiling is positive, and reporting the count observed), overlapping mapped
  paths with quota tracking, source address not allowed. Each check is reached only when
  all the earlier ones passed and ends the function when it fails: the events of the
  run show which collaborators were asked. In particular a relative home directory is
  rejected with no question to the registry of sessions.
\<close>

theorem validateUser_check_order:
  "let err = snd (fst (validateUser e user r w));
       evs = eventsSince w (snd (validateUser e user r w));
       name = Username user;
       tagged = ProtocolWebDAV e @ ''_'' @ xidNew e (xidCount w);
       n = GetActiveSessions e name;
       sess = (if MaxSessions user > 0 then [EvGetActiveSessions name] else [])
   in
     (\<not> IsAbs e (HomeDir user) \<longrightarrow>
        err = Some (ErrInvalidHomeDir (HomeDir user)) \<and> evs = [EvXidNew, EvLog LevelWarn tagged])
   \<and> (IsAbs e (HomeDir user) \<and> ProtocolWebDAV e \<in> set (DeniedProtocols user) \<longrightarrow>
        err = Some (ErrProtocolNotAllowed name) \<and> evs = [EvXidNew, EvLog LevelDebug tagged])
   \<and> (IsAbs e (HomeDir user) \<and> ProtocolWebDAV e \<notin> set (DeniedProtocols user)
        \<and> \<not> IsLoginMethodAllowed e user (LoginMethodPassword e) \<longrightarrow>
        err = Some (ErrLoginMethodNotAllowed name) \<and> evs = [EvXidNew, EvLog LevelDebug tagged])
   \<and> (IsAbs e (HomeDir user) \<and> ProtocolWebDAV e \<notin> set (DeniedProtocols user)
        \<and> IsLoginMethodAllowed e user (LoginMethodPassword e) \<longrightarrow>
          (MaxSessions user > 0 \<and> n \<ge> MaxSessions user \<longrightarrow>
             err = Some (ErrTooManySessions n)
             \<and> evs = [EvXidNew, EvGetActiveSessions name, EvLog LevelDebug (xidNew e (xidCount w))])
        \<and> (\<not> (MaxSessions user > 0 \<and> n \<ge> MaxSessions user) \<longrightarrow>
             (GetQuotaTracking e > 0 \<and> HasOverlappedMappedPaths e user \<longrightarrow>
                err = Some ErrOverlappedFolders
                \<and> evs = EvXidNew # sess @ [EvGetQuotaTracking, EvLog LevelDebug tagged])
           \<and> (\<not> (GetQuotaTracking e > 0 \<and> HasOverlappedMappedPaths e user)
                \<and> \<not> IsLoginFromAddrAllowed e user (RemoteAddr r) \<longrightarrow>
                err = Some (ErrAddressNotAllowed name (RemoteAddr r))
                \<and> evs = EvXidNew # sess @ [EvGetQuotaTracking, EvLog LevelDebug tagged])
           \<and> (\<not> (GetQuotaTracking e > 0 \<and> HasOverlappedMappedPaths e user)
                \<and> IsLoginFromAddrAllowed e user (RemoteAddr r) \<longrightarrow>
                err = None \<and> evs = EvXidNew # sess @ [EvGetQuotaTracking])))"
  by (simp add: validateUser_def Let_def emit_def eventsSince_def)

text \<open>
  Three users of the concrete deployment: one with a relative home directory and a full
  quota of sessions (rejected for the home directory, the registry not asked), one with
  a full quota of sessions only (rejected with the count 2), and alice (admitted).
\<close>

theorem validateUser_check_order_witness:
  "snd (fst (validateUser (exampleEnv\<lparr>GetActiveSessions := (\<lambda>name. 2)\<rparr>)
              (alice\<lparr>HomeDir := ''relative/path''\<rparr>) exampleRequest exampleWorld))
     = Some (ErrInvalidHomeDir ''relative/path'')
   \<and> eventsSince exampleWorld
        (snd (validateUser (exampleEnv\<lparr>GetActiveSessions := (\<lambda>name. 2)\<rparr>)
               (alice\<lparr>HomeDir := ''relative/path''\<rparr>) exampleRequest exampleWorld))
     = [EvXidNew, EvLog LevelWarn ''DAV_c5q8o3v2a1b4d6e7f9g0'']
   \<and> snd (fst (validateUser (exampleEnv\<lparr>GetActiveSessions := (\<lambda>name. 2)\<rparr>)
              alice exampleRequest exampleWorld))
     = Some (ErrTooManySessions 2)
   \<and> eventsSince exampleWorld
        (snd (validateUser (exampleEnv\<lparr>GetActiveSessions := (\<lambda>name. 2)\<rparr>)
               alice exampleRequest exampleWorld))
     = [EvXidNew, EvGetActiveSessions ''alice'', EvLog LevelDebug ''c5q8o3v2a1b4d6e7f9g0'']
   \<and> snd (fst (validateUser exampleEnv alice exampleRequest exampleWorld)) = None
   \<and> eventsSince exampleWorld (snd (validateUser exampleEnv alice exampleRequest exampleWorld))
     = [EvXidNew, EvGetActiveSessions ''alice'', EvGetQuotaTracking]"
  using
    validateUser_check_order
      [of "exampleEnv\<lparr>GetActiveSessions := (\<lambda>name. 2)\<rparr>" "alice\<lparr>HomeDir := ''relative/path''\<rparr>"
          exampleRequest exampleWorld]
    validateUser_check_order
      [of "exampleEnv\<lparr>GetActiveSessions := (\<lambda>name. 2)\<rparr>" alice exampleRequest exampleWorld]
    validateUser_check_order [of exampleEnv alice exampleRequest exampleWorld]
  by (simp add: Let_def exampleEnv_def alice_def exampleWorld_def)

text \<open>
  C9, as the code has it. On success and on every rejection alike, the identifier
  \<^verbatim>\<open>validateUser\<close> returns is the bare token of \<^verbatim>\<open>xid.New()\<close>; it is never the text
  protocol tag, separator, token, which the function builds for its log records only.
\<close>

theorem validateUser_returns_token:
  "fst (fst (validateUser e user r w)) = xidNew e (xidCount w)
   \<and> fst (fst (validateUser e user r w)) \<noteq> ProtocolWebDAV e @ ''_'' @ xidNew e (xidCount w)"
proof -
  have "length (xidNew e (xidCount w)) \<noteq> length (ProtocolWebDAV e @ ''_'' @ xidNew e (xidCount w))"
    by simp
  then have "xidNew e (xidCount w) \<noteq> ProtocolWebDAV e @ ''_'' @ xidNew e (xidCount w)"
    by metis
  then show ?thesis
    by (simp add: validateUser_def Let_def)
qed

text \<open>
  C9 fails as stated: alice is admitted and a user with a relative home directory is
  rejected, and both get the token back, not \<^verbatim>\<open>DAV_\<close> and the token.
\<close>

theorem validateUser_identifier_counterexample:
  "fst (validateUser exampleEnv alice exampleRequest exampleWorld)
     = (''c5q8o3v2a1b4d6e7f9g0'', None)
   \<and> fst (validateUser exampleEnv (alice\<lparr>HomeDir := ''relative/path''\<rparr>) exampleRequest exampleWorld)
     = (''c5q8o3v2a1b4d6e7f9g0'', Some (ErrInvalidHomeDir ''relative/path''))
   \<and> ProtocolWebDAV exampleEnv @ ''_'' @ xidNew exampleEnv (xidCount exampleWorld)
     = ''DAV_c5q8o3v2a1b4d6e7f9g0''
   \<and> ''c5q8o3v2a1b4d6e7f9g0'' \<noteq> ''DAV_c5q8o3v2a1b4d6e7f9g0''"
  by (simp add: validateUser_def Let_def exampleEnv_def alice_def exampleWorld_def exampleRequest_def)

subsection \<open>Theorems: the authenticator\<close>

lemmas auth_defs = authenticate_def authenticate_verify_def GetCachedWebDAVUser_def
  RemoveCachedWebDAVUser_def NewMemLS_def updateLoginMetrics_def emit_def Let_def

text \<open>
  C2. When the cache holds, for the user name of the request, a credential whose
  expiration is set and not strictly in the future, \<^verbatim>\<open>authenticate\<close> does not return
  it as valid: it asks the cache, removes the entry and verifies the credentials against
  the identity provider, in this order, and its results and the cache it leaves are
  those of the same call on a cache without the entry (a cache miss). When the
  verification fails or the password is empty, the cache is left without an entry for
  the user name.
\<close>

theorem authenticate_expired_entry:
  assumes "BasicAuth e r = Some (username, password)"
      and "cache w username = Some cachedUser"
      and "Expiration cachedUser = Some ex"
      and "\<not> now w < ex"
  shows "let res = authenticate e r ip w;
             miss = authenticate e r ip (w\<lparr>cache := (cache w)(username := None)\<rparr>)
         in fst res = fst miss
          \<and> cache (snd res) = cache (snd miss)
          \<and> \<not> isCached (fst res)
          \<and> (\<exists>rest. eventsSince w (snd res) =
                [EvGetCachedWebDAVUser username, EvRemoveCachedWebDAVUser username,
                 EvCheckUserAndPass username password ip (ProtocolWebDAV e)] @ rest)
          \<and> (authErr (fst res) \<noteq> None \<or> password = [] \<longrightarrow>
                cache (snd res) = (cache w)(username := None))"
  using assms
  by (auto simp add: auth_defs IsExpired_def eventsSince_def split: prod.splits option.splits sum.splits)

text \<open>
  The credential expiring at 2000 is looked up at the time 3000 with the right password
  (a new lock system 8 is returned, not the cached 7), and at the time 2000 with a wrong
  one (the provider rejects it and the entry is gone).
\<close>

theorem authenticate_expired_entry_witness:
  "cache (cachedWorld\<lparr>now := 3000\<rparr>) ''alice'' = Some cachedAlice
   \<and> Expiration cachedAlice = Some 2000
   \<and> fst (authenticate exampleEnv exampleRequest ''198.51.100.7'' (cachedWorld\<lparr>now := 3000\<rparr>))
      = \<lparr>authUser = alice, isCached = False, lockSystem = Some 8, authErr = None\<rparr>
   \<and> take 3 (eventsSince (cachedWorld\<lparr>now := 3000\<rparr>)
        (snd (authenticate exampleEnv exampleRequest ''198.51.100.7'' (cachedWorld\<lparr>now := 3000\<rparr>))))
      = [EvGetCachedWebDAVUser ''alice'', EvRemoveCachedWebDAVUser ''alice'',
         EvCheckUserAndPass ''alice'' ''secret'' ''198.51.100.7'' ''DAV'']
   \<and> authErr (fst (authenticate exampleEnv
         (exampleRequest\<lparr>Header := [''Authorization'' \<mapsto> [''Basic YWxpY2U6d3Jvbmc='']]\<rparr>)
         ''198.51.100.7'' (cachedWorld\<lparr>now := 2000\<rparr>)))
      = Some ErrInvalidCredentials
   \<and> cache (snd (authenticate exampleEnv
         (exampleRequest\<lparr>Header := [''Authorization'' \<mapsto> [''Basic YWxpY2U6d3Jvbmc='']]\<rparr>)
         ''198.51.100.7'' (cachedWorld\<lparr>now := 2000\<rparr>))) ''alice''
      = None"
  using
    authenticate_expired_entry
      [of exampleEnv exampleRequest "''alice''" "''secret''" "cachedWorld\<lparr>now := 3000\<rparr>"
          cachedAlice 2000 "''198.51.100.7''"]
    authenticate_expired_entry
      [of exampleEnv "exampleRequest\<lparr>Header := [''Authorization'' \<mapsto> [''Basic YWxpY2U6d3Jvbmc='']]\<rparr>"
          "''alice''" "''wrong''" "cachedWorld\<lparr>now := 2000\<rparr>" cachedAlice 2000 "''198.51.100.7''"]
  by (simp add: auth_defs BasicAuth_def headerGet_def IsExpired_def eventsSince_def exampleEnv_def
        exampleRequest_def cachedWorld_def cachedAlice_def alice_def zeroUser_def)

text \<open>
  C3. When the cache holds a credential for the user name that is not expired, and the
  password of the request is empty or differs from the cached one, \<^verbatim>\<open>authenticate\<close>
  fails with the invalid-credentials error, reports the failure, leaves the cache as it
  is and does not ask the identity provider.
\<close>

theorem authenticate_cached_mismatch:
  assumes "BasicAuth e r = Some (username, password)"
      and "cache w username = Some cachedUser"
      and "\<not> IsExpired (now w) cachedUser"
      and "password = [] \<or> Password cachedUser \<noteq> password"
  shows "fst (authenticate e r ip w) =
           \<lparr>authUser = zeroUser, isCached = False, lockSystem = None,
            authErr = Some ErrInvalidCredentials\<rparr>
       \<and> cache (snd (authenticate e r ip w)) = cache w
       \<and> eventsSince w (snd (authenticate e r ip w)) =
           [EvGetCachedWebDAVUser username,
            EvAddLoginAttempt (LoginMethodPassword e),
            EvConnectionFailedLog (Username (User cachedUser)) ip (LoginMethodPassword e)
              (ProtocolWebDAV e) ErrInvalidCredentials,
            EvAddDefenderEvent ip HostEventLoginFailed,
            EvAddLoginResult (LoginMethodPassword e) (Some ErrInvalidCredentials),
            EvExecutePostLoginHook (User cachedUser) (LoginMethodPassword e) ip (ProtocolWebDAV e)
              (Some ErrInvalidCredentials)]
       \<and> (\<forall>u p i pr. EvCheckUserAndPass u p i pr \<notin> set (eventsSince w (snd (authenticate e r ip w))))"
  using assms by (auto simp add: auth_defs eventsSince_def)

theorem authenticate_cached_mismatch_witness:
  "authErr (fst (authenticate exampleEnv
       (exampleRequest\<lparr>Header := [''Authorization'' \<mapsto> [''Basic YWxpY2U6d3Jvbmc='']]\<rparr>)
       ''198.51.100.7'' cachedWorld))
     = Some ErrInvalidCredentials
   \<and> authErr (fst (authenticate exampleEnv
       (exampleRequest\<lparr>Header := [''Authorization'' \<mapsto> [''Basic YWxpY2U6'']]\<rparr>)
       ''198.51.100.7'' (cachedWorld\<lparr>cache := [''alice'' \<mapsto> cachedAlice\<lparr>Password := []\<rparr>]\<rparr>)))
     = Some ErrInvalidCredentials
   \<and> EvCheckUserAndPass ''alice'' [] ''198.51.100.7'' ''DAV''
     \<notin> set (eventsSince (cachedWorld\<lparr>cache := [''alice'' \<mapsto> cachedAlice\<lparr>Password := []\<rparr>]\<rparr>)
         (snd (authenticate exampleEnv
           (exampleRequest\<lparr>Header := [''Authorization'' \<mapsto> [''Basic YWxpY2U6'']]\<rparr>)
           ''198.51.100.7'' (cachedWorld\<lparr>cache := [''alice'' \<mapsto> cachedAlice\<lparr>Password := []\<rparr>]\<rparr>))))"
  using
    authenticate_cached_mismatch
      [of exampleEnv "exampleRequest\<lparr>Header := [''Authorization'' \<mapsto> [''Basic YWxpY2U6d3Jvbmc='']]\<rparr>"
          "''alice''" "''wrong''" cachedWorld cachedAlice "''198.51.100.7''"]
    authenticate_cached_mismatch
      [of exampleEnv "exampleRequest\<lparr>Header := [''Authorization'' \<mapsto> [''Basic YWxpY2U6'']]\<rparr>"
          "''alice''" "[]" "cachedWorld\<lparr>cache := [''alice'' \<mapsto> cachedAlice\<lparr>Password := []\<rparr>]\<rparr>"
          "cachedAlice\<lparr>Password := []\<rparr>" "''198.51.100.7''"]
  by (simp add: BasicAuth_def headerGet_def IsExpired_def exampleEnv_def exampleRequest_def
        cachedWorld_def cachedAlice_def)

text \<open>
  C10. A login with an empty password that succeeds has been verified by the identity
  provider (a cached credential never matches an empty password), by lines 221-247,
  which leave the cache as it is for an empty password: no credential is stored, no
  file system is opened and no root path is checked, and the only entry the whole call
  can have taken out of the cache is an expired one of that user name, before the
  verification. The lock system returned is new, so two such logins, the second in a
  world where the allocator has not gone back, return different lock systems.
\<close>

theorem authenticate_empty_password:
  assumes "BasicAuth e r = Some (username, [])"
      and "authErr (fst (authenticate e r ip w)) = None"
      and "nextLockSystem (snd (authenticate e r ip w)) \<le> nextLockSystem w2"
      and "BasicAuth e2 r2 = Some (username, [])"
      and "authErr (fst (authenticate e2 r2 ip2 w2)) = None"
  shows "let res = authenticate e r ip w;
             evs = eventsSince w (snd res);
             res2 = authenticate e2 r2 ip2 w2
         in cache (snd (authenticate_verify e username [] ip w0)) = cache w0
          \<and> cache (snd res) = (cache w)(username := None)
          \<and> (\<forall>cachedUser. cache w username = Some cachedUser \<longrightarrow> IsExpired (now w) cachedUser)
          \<and> EvCheckUserAndPass username [] ip (ProtocolWebDAV e) \<in> set evs
          \<and> (\<forall>cachedUser n. EvCacheWebDAVUser cachedUser n \<notin> set evs)
          \<and> (\<forall>user connID. EvGetFilesystem user connID \<notin> set evs)
          \<and> (\<forall>fs name uid gid. EvCheckRootPath fs name uid gid \<notin> set evs)
          \<and> \<not> isCached (fst res)
          \<and> lockSystem (fst res) = Some (nextLockSystem w)
          \<and> lockSystem (fst res2) = Some (nextLockSystem w2)
          \<and> lockSystem (fst res) \<noteq> lockSystem (fst res2)"
  using assms
  by (auto simp add: auth_defs eventsSince_def split: prod.splits option.splits if_splits)

text \<open>
  A deployment whose provider accepts alice with any password, and two logins of hers
  with the empty password, the second right after the first.
\<close>

theorem authenticate_empty_password_witness:
  "authenticate (exampleEnv\<lparr>CheckUserAndPass := (\<lambda>username password ip protocol. (alice, None))\<rparr>)
     (exampleRequest\<lparr>Header := [''Authorization'' \<mapsto> [''Basic YWxpY2U6'']]\<rparr>) ''198.51.100.7''
     exampleWorld
   = (\<lparr>authUser = alice, isCached = False, lockSystem = Some 0, authErr = None\<rparr>,
      exampleWorld\<lparr>nextLockSystem := 1,
        trace := [EvGetCachedWebDAVUser ''alice'',
                  EvCheckUserAndPass ''alice'' [] ''198.51.100.7'' ''DAV'', EvNewMemLS]\<rparr>)
   \<and> lockSystem (fst (authenticate
       (exampleEnv\<lparr>CheckUserAndPass := (\<lambda>username password ip protocol. (alice, None))\<rparr>)
       (exampleRequest\<lparr>Header := [''Authorization'' \<mapsto> [''Basic YWxpY2U6'']]\<rparr>) ''198.51.100.7''
       (snd (authenticate
          (exampleEnv\<lparr>CheckUserAndPass := (\<lambda>username password ip protocol. (alice, None))\<rparr>)
          (exampleRequest\<lparr>Header := [''Authorization'' \<mapsto> [''Basic YWxpY2U6'']]\<rparr>) ''198.51.100.7''
          exampleWorld))))
     = Some 1"
  using
    authenticate_empty_password
      [of "exampleEnv\<lparr>CheckUserAndPass := (\<lambda>username password ip protocol. (alice, None))\<rparr>"
          "exampleRequest\<lparr>Header := [''Authorization'' \<mapsto> [''Basic YWxpY2U6'']]\<rparr>"
          "''alice''" "''198.51.100.7''" exampleWorld
          "snd (authenticate
             (exampleEnv\<lparr>CheckUserAndPass := (\<lambda>username password ip protocol. (alice, None))\<rparr>)
             (exampleRequest\<lparr>Header := [''Authorization'' \<mapsto> [''Basic YWxpY2U6'']]\<rparr>) ''198.51.100.7''
             exampleWorld)"
          "exampleEnv\<lparr>CheckUserAndPass := (\<lambda>username password ip protocol. (alice, None))\<rparr>"
          "exampleRequest\<lparr>Header := [''Authorization'' \<mapsto> [''Basic YWxpY2U6'']]\<rparr>"
          "''198.51.100.7''" exampleWorld]
  by (simp add: auth_defs BasicAuth_def headerGet_def eventsSince_def exampleEnv_def
        exampleRequest_def exampleWorld_def)

subsection \<open>Lemmas: the events of each function\<close>

lemma trace_emit: "trace (emit ev w) = trace w @ [ev]"
  by (simp add: emit_def)

lemma updateLoginMetrics_eq:
  "updateLoginMetrics e user ip err w = w\<lparr>trace := trace w @ reportEvents e user ip err\<rparr>"
  by (cases err) (simp_all add: updateLoginMetrics_def reportEvents_def emit_def Let_def)

lemma filter_reportEvents:
  "filter isReporterEvent (reportEvents e user ip err) = reportEvents e user ip err"
  by (cases err) (simp_all add: reportEvents_def)

lemma reportEvents_no_handler: "EvHandlerServeHTTP req ls \<notin> set (reportEvents e user ip err)"
  by (cases err) (simp_all add: reportEvents_def)

lemma checkRemoteAddress_fields:
  "Header (checkRemoteAddress e r) = Header r \<and> Method (checkRemoteAddress e r) = Method r
   \<and> URLPath (checkRemoteAddress e r) = URLPath r"
  by (simp add: checkRemoteAddress_def Let_def)

lemma BasicAuth_checkRemoteAddress: "BasicAuth e (checkRemoteAddress e r) = BasicAuth e r"
  by (simp add: BasicAuth_def checkRemoteAddress_fields)

lemma authenticate_events:
  "\<exists>evs. trace (snd (authenticate e r ip w)) = trace w @ evs
     \<and> (\<forall>req ls. EvHandlerServeHTTP req ls \<notin> set evs)
     \<and> (authErr (fst (authenticate e r ip w)) = None \<longrightarrow> filter isReporterEvent evs = [])
     \<and> (\<forall>er. authErr (fst (authenticate e r ip w)) = Some er \<longrightarrow>
           (BasicAuth e r = None \<longrightarrow> evs = [])
         \<and> (BasicAuth e r \<noteq> None \<longrightarrow>
               (\<exists>user. filter isReporterEvent evs = reportEvents e user ip (Some er))))"
proof (cases "BasicAuth e r")
  case None
  then show ?thesis by (simp add: authenticate_def)
next
  case (Some c)
  obtain username password where c: "c = (username, password)" by (cases c)
  show ?thesis
    using Some c
    apply (simp add: authenticate_def authenticate_verify_def GetCachedWebDAVUser_def
        RemoveCachedWebDAVUser_def NewMemLS_def updateLoginMetrics_eq trace_emit emit_def Let_def
        filter_reportEvents reportEvents_no_handler
        split: prod.splits option.splits sum.splits)
    apply (auto simp add: filter_reportEvents reportEvents_no_handler)
    done
qed

lemma validateUser_events:
  "\<exists>evs. trace (snd (validateUser e user r w)) = trace w @ evs
     \<and> (\<forall>req ls. EvHandlerServeHTTP req ls \<notin> set evs)
     \<and> filter isReporterEvent evs = []"
  by (simp add: validateUser_def Let_def emit_def)

lemma checkRequestMethod_events:
  "\<exists>evs. trace (snd (checkRequestMethod e r c w)) = trace w @ evs
     \<and> (\<forall>req ls. EvHandlerServeHTTP req ls \<notin> set evs)
     \<and> filter isReporterEvent evs = []"
  by (simp add: checkRequestMethod_def Let_def emit_def split: sum.splits)

lemma checkRequestMethod_RemoteAddr:
  "RemoteAddr (snd (fst (checkRequestMethod e r c w))) = RemoteAddr r"
  by (simp add: checkRequestMethod_def Let_def split: sum.splits)


lemma ServeHTTP_connection_passed:
  assumes allowed: "IsNewConnectionAllowed e"
      and ip: "ip = GetIPFromRemoteAddress e (RemoteAddr (checkRemoteAddress e r))"
      and notbanned: "\<not> IsBanned e ip"
      and hook: "ExecutePostConnectHook e ip (ProtocolWebDAV e) = None"
  shows "\<exists>rest. trace (snd (snd (ServeHTTP e r w))) =
            trace w @ [EvIsNewConnectionAllowed, EvIsBanned ip,
                       EvExecutePostConnectHook ip (ProtocolWebDAV e)] @ rest
      \<and> RemoteAddr (fst (snd (ServeHTTP e r w))) = RemoteAddr (checkRemoteAddress e r)
      \<and> (case BasicAuth e r of
           None \<Rightarrow>
             rest = []
             \<and> fst (ServeHTTP e r w) =
                 Written (httpError (headerSet Map.empty ''Www-Authenticate'' wwwAuthenticate) err401 401)
         | Some c \<Rightarrow>
             (\<exists>user err. filter isReporterEvent rest = reportEvents e user ip err
                \<and> (err = None) = (case fst (ServeHTTP e r w) of
                                    Handler req ls \<Rightarrow> True
                                  | Written resp \<Rightarrow> StatusCode resp = 207)))"
proof -
  define r1 where "r1 = checkRemoteAddress e r"
  define w3 where "w3 = emit (EvExecutePostConnectHook ip (ProtocolWebDAV e))
                          (emit (EvIsBanned ip) (emit EvIsNewConnectionAllowed w))"
  have w3: "trace w3 = trace w @ [EvIsNewConnectionAllowed, EvIsBanned ip,
                                   EvExecutePostConnectHook ip (ProtocolWebDAV e)]"
    by (simp add: w3_def trace_emit)
  have B: "BasicAuth e r1 = BasicAuth e r"
    by (simp add: r1_def BasicAuth_checkRemoteAddress)
  obtain auth w4 where A: "authenticate e r1 ip w3 = (auth, w4)"
    by (cases "authenticate e r1 ip w3")
  obtain evsA where evsA: "trace w4 = trace w3 @ evsA"
      and hA: "\<forall>req ls. EvHandlerServeHTTP req ls \<notin> set evsA"
      and rA: "authErr auth = None \<longrightarrow> filter isReporterEvent evsA = []"
      and rA2: "\<forall>er. authErr auth = Some er \<longrightarrow>
           (BasicAuth e r = None \<longrightarrow> evsA = [])
         \<and> (BasicAuth e r \<noteq> None \<longrightarrow>
               (\<exists>user. filter isReporterEvent evsA = reportEvents e user ip (Some er)))"
    using authenticate_events [of e r1 ip w3] A B
    by auto
  have S: "ServeHTTP e r w =
     (case authErr auth of
        Some er \<Rightarrow>
          (Written (httpError (headerSet Map.empty ''Www-Authenticate'' wwwAuthenticate) err401 401),
           r1, w4)
      | None \<Rightarrow>
          (let user = authUser auth;
               ((connectionID, verr), w5) = validateUser e user r1 w4
           in
             case verr of
               Some er \<Rightarrow>
                 (Written (httpError Map.empty er 403), r1,
                  updateLoginMetrics e user ip (Some er) w5)
             | None \<Rightarrow>
                 (let w6 = emit (EvGetFilesystem user connectionID) w5 in
                  case GetFilesystem e user connectionID of
                    Inl er \<Rightarrow>
                      (Written (httpError Map.empty er 500), r1,
                       updateLoginMetrics e user ip (Some er) w6)
                  | Inr fs \<Rightarrow>
                      (let w7 = updateLoginMetrics e user ip None w6;
                           connection = \<lparr>ID = connectionID, ConnUser = user, Fs = fs\<rparr>;
                           w8 = emit (EvConnectionsAdd connectionID) w7;
                           w9 = emit (EvUpdateLastLogin user) w8;
                           ((handled, r2), w10) = checkRequestMethod e r1 connection w9
                       in
                         if handled then
                           (Written \<lparr>StatusCode = 207,
                                     RespHeader = headerSet Map.empty ''Content-Type''
                                                    ''text/xml; charset=utf-8'',
                                     Body = Bytes []\<rparr>,
                            r2, emit (EvConnectionsRemove connectionID) w10)
                         else
                           (Handler r2 (lockSystem auth), r2,
                            emit (EvConnectionsRemove connectionID)
                              (emit (EvHandlerServeHTTP r2 (lockSystem auth)) w10))))))"
    using allowed notbanned hook A
    unfolding r1_def w3_def ip
    by (simp add: ServeHTTP_def Let_def)
  show ?thesis
  proof (cases "authErr auth")
    case (Some er)
    then show ?thesis
      using S rA2 evsA w3
      by (cases "BasicAuth e r") (auto simp add: r1_def httpError_def)
  next
    case None
    note authok = None
    have basic: "BasicAuth e r \<noteq> None"
      using A authok B by (auto simp add: authenticate_def split: option.splits)
    then obtain c where c: "BasicAuth e r = Some c" by auto
    define user where "user = authUser auth"
    obtain cid verr w5 where V: "validateUser e user r1 w4 = ((cid, verr), w5)"
      by (cases "validateUser e user r1 w4") auto
    obtain evsV where evsV: "trace w5 = trace w4 @ evsV"
        and rV: "filter isReporterEvent evsV = []"
      using validateUser_events [of e user r1 w4] V by auto
    have rA': "filter isReporterEvent evsA = []"
      using rA authok by simp
    show ?thesis
    proof (cases verr)
      case (Some er)
      then show ?thesis
        using S authok V evsV rV evsA rA' w3 c
        by (auto simp add: user_def [symmetric] updateLoginMetrics_eq httpError_def r1_def
              filter_reportEvents)
    next
      case None
      note vok = None
      show ?thesis
      proof (cases "GetFilesystem e user cid")
        case (Inl er)
        then show ?thesis
          using S authok V vok evsV rV evsA rA' w3 c
          by (auto simp add: user_def [symmetric] updateLoginMetrics_eq httpError_def r1_def
                filter_reportEvents trace_emit)
      next
        case (Inr fs)
        define conn where "conn = \<lparr>ID = cid, ConnUser = user, Fs = fs\<rparr>"
        define w9 where "w9 = emit (EvUpdateLastLogin user) (emit (EvConnectionsAdd cid)
                     (updateLoginMetrics e user ip None (emit (EvGetFilesystem user cid) w5)))"
        obtain handled r2 w10 where C: "checkRequestMethod e r1 conn w9 = ((handled, r2), w10)"
          by (cases "checkRequestMethod e r1 conn w9") auto
        obtain evsC where evsC: "trace w10 = trace w9 @ evsC"
            and rC: "filter isReporterEvent evsC = []"
          using checkRequestMethod_events [of e r1 conn w9] C by auto
        have r2: "RemoteAddr r2 = RemoteAddr r1"
          using checkRequestMethod_RemoteAddr [of e r1 conn w9] C by simp
        have w9: "trace w9 = trace w5 @ [EvGetFilesystem user cid] @ reportEvents e user ip None
                    @ [EvConnectionsAdd cid, EvUpdateLastLogin user]"
          by (simp add: w9_def trace_emit updateLoginMetrics_eq)
        show ?thesis
          using S authok V vok Inr C evsC rC r2 w9 evsV rV evsA rA' w3 c
          by (cases handled)
             (auto simp add: user_def [symmetric] conn_def [symmetric] w9_def [symmetric]
                r1_def trace_emit filter_reportEvents)
      qed
    qed
  qed
qed

subsection \<open>Lemmas: the first occurrence of the separator\<close>

lemma stringsIndex_none:
  "(\<forall>a b. s \<noteq> a @ '', '' @ b) \<Longrightarrow> stringsIndex s '', '' = -1"
proof (induction s)
  case Nil
  then show ?case by simp
next
  case (Cons c cs)
  have "take 2 (c # cs) \<noteq> '', ''"
  proof
    assume "take 2 (c # cs) = '', ''"
    then have "c # cs = [] @ '', '' @ drop 2 (c # cs)"
      by (metis append_Nil append_take_drop_id)
    with Cons.prems show False by blast
  qed
  moreover have "\<forall>a b. cs \<noteq> a @ '', '' @ b"
  proof (intro allI notI)
    fix a b assume "cs = a @ '', '' @ b"
    then have "c # cs = (c # a) @ '', '' @ b" by simp
    with Cons.prems show False by blast
  qed
  ultimately show ?case using Cons.IH by simp
qed

lemma stringsIndex_first:
  "(\<forall>a' b'. a \<noteq> a' @ '', '' @ b') \<Longrightarrow> stringsIndex (a @ '', '' @ b) '', '' = int (length a)"
proof (induction a)
  case Nil
  then show ?case by simp
next
  case (Cons x a)
  have no: "\<forall>a' b'. a \<noteq> a' @ '', '' @ b'"
  proof (intro allI notI)
    fix a' b' assume "a = a' @ '', '' @ b'"
    then have "x # a = (x # a') @ '', '' @ b'" by simp
    with Cons.prems show False by blast
  qed
  have "take 2 (x # a @ '', '' @ b) \<noteq> '', ''"
  proof (cases a)
    case Nil
    then show ?thesis by simp
  next
    case (Cons y ys)
    show ?thesis
    proof
      assume "take 2 (x # a @ '', '' @ b) = '', ''"
      then have "x # a = [] @ '', '' @ ys" using Cons by simp
      with Cons.prems show False by blast
    qed
  qed
  then show ?case using Cons.IH [OF no] by simp
qed

subsection \<open>Lemmas: the address resolution, case by case\<close>

lemma no_separator: "CHR '','' \<notin> set a \<Longrightarrow> \<forall>a' b'. a \<noteq> a' @ '', '' @ b'"
proof (intro allI notI)
  fix a' b' assume "CHR '','' \<notin> set a" "a = a' @ '', '' @ b'"
  then show False by simp
qed

lemma checkRemoteAddress_proxy: "ProxyProtocol e \<noteq> 0 \<Longrightarrow> checkRemoteAddress e r = r"
  by (simp add: checkRemoteAddress_def)

lemma checkRemoteAddress_xrip:
  "ProxyProtocol e = 0 \<Longrightarrow> headerGet (Header r) xRealIP \<noteq> [] \<Longrightarrow>
     checkRemoteAddress e r = r\<lparr>RemoteAddr := headerGet (Header r) xRealIP\<rparr>"
  by (simp add: checkRemoteAddress_def Let_def)

lemma checkRemoteAddress_xff_first:
  assumes "ProxyProtocol e = 0" "headerGet (Header r) xRealIP = []"
      and "headerGet (Header r) xForwardedFor = a @ '', '' @ b"
      and "CHR '','' \<notin> set a"
  shows "checkRemoteAddress e r =
          (if TrimSpace e a = [] then r else r\<lparr>RemoteAddr := TrimSpace e a\<rparr>)"
proof -
  have "stringsIndex (a @ '', '' @ b) '', '' = int (length a)"
    using assms(4) by (intro stringsIndex_first no_separator)
  then show ?thesis
    using assms(1-3) by (simp add: checkRemoteAddress_def Let_def)
qed

lemma checkRemoteAddress_xff_whole:
  assumes "ProxyProtocol e = 0" "headerGet (Header r) xRealIP = []"
      and "headerGet (Header r) xForwardedFor \<noteq> []"
      and "CHR '','' \<notin> set (headerGet (Header r) xForwardedFor)"
  shows "checkRemoteAddress e r =
          (if TrimSpace e (headerGet (Header r) xForwardedFor) = [] then r
           else r\<lparr>RemoteAddr := TrimSpace e (headerGet (Header r) xForwardedFor)\<rparr>)"
proof -
  have "stringsIndex (headerGet (Header r) xForwardedFor) '', '' = -1"
    using assms(4) by (intro stringsIndex_none no_separator)
  then show ?thesis
    using assms(1-3) by (simp add: checkRemoteAddress_def Let_def)
qed

lemma checkRemoteAddress_none:
  "ProxyProtocol e = 0 \<Longrightarrow> headerGet (Header r) xRealIP = [] \<Longrightarrow>
   headerGet (Header r) xForwardedFor = [] \<Longrightarrow> checkRemoteAddress e r = r"
  by (simp add: checkRemoteAddress_def Let_def)


lemma ServeHTTP_address:
  assumes allowed: "IsNewConnectionAllowed e"
  shows "RemoteAddr (fst (snd (ServeHTTP e r w))) = RemoteAddr (checkRemoteAddress e r)
     \<and> take 2 (eventsSince w (snd (snd (ServeHTTP e r w)))) =
         [EvIsNewConnectionAllowed,
          EvIsBanned (GetIPFromRemoteAddress e (RemoteAddr (checkRemoteAddress e r)))]"
proof -
  define ip where "ip = GetIPFromRemoteAddress e (RemoteAddr (checkRemoteAddress e r))"
  have early: "IsBanned e ip \<or> ExecutePostConnectHook e ip (ProtocolWebDAV e) \<noteq> None
        \<Longrightarrow> ?thesis"
    using allowed
    by (auto simp add: ServeHTTP_def Let_def eventsSince_def trace_emit ip_def)
  have late: "\<not> IsBanned e ip \<Longrightarrow> ExecutePostConnectHook e ip (ProtocolWebDAV e) = None
        \<Longrightarrow> ?thesis"
  proof -
    assume a: "\<not> IsBanned e ip" "ExecutePostConnectHook e ip (ProtocolWebDAV e) = None"
    from ServeHTTP_connection_passed [OF allowed ip_def a(1) a(2), of w]
    obtain rest where "trace (snd (snd (ServeHTTP e r w))) =
        trace w @ [EvIsNewConnectionAllowed, EvIsBanned ip,
                   EvExecutePostConnectHook ip (ProtocolWebDAV e)] @ rest"
      and "RemoteAddr (fst (snd (ServeHTTP e r w))) = RemoteAddr (checkRemoteAddress e r)"
      by blast
    then show ?thesis
      by (simp add: eventsSince_def ip_def [symmetric])
  qed
  show ?thesis using early late by blast
qed

subsection \<open>Theorems: the request pipeline\<close>

text \<open>
  C4. The connection-level checks of \<^verbatim>\<open>ServeHTTP\<close> run in the order: global
  connection ceiling (503), ban list of the source address (403), post-connect hook
  (403). Each ends the request when it fails: the events of the run are the checks made
  so far and nothing else. When the ceiling is reached the authenticator is not called:
  neither the cache nor the identity provider is asked and the cache is unchanged. When
  the three checks pass, they are the first three events of the run.
\<close>

theorem ServeHTTP_connection_admission:
  "let ip = GetIPFromRemoteAddress e (RemoteAddr (checkRemoteAddress e r));
       hook = ExecutePostConnectHook e ip (ProtocolWebDAV e);
       out = ServeHTTP e r w;
       evs = eventsSince w (snd (snd out))
   in (\<not> IsNewConnectionAllowed e \<longrightarrow>
         fst out = Written (httpError Map.empty ErrConnectionDenied 503)
         \<and> evs = [EvIsNewConnectionAllowed, EvLog LevelDebug []]
         \<and> (\<forall>username. EvGetCachedWebDAVUser username \<notin> set evs)
         \<and> (\<forall>username password i protocol.
               EvCheckUserAndPass username password i protocol \<notin> set evs)
         \<and> cache (snd (snd out)) = cache w)
    \<and> (IsNewConnectionAllowed e \<and> IsBanned e ip \<longrightarrow>
         fst out = Written (httpError Map.empty ErrConnectionDenied 403)
         \<and> evs = [EvIsNewConnectionAllowed, EvIsBanned ip])
    \<and> (IsNewConnectionAllowed e \<and> \<not> IsBanned e ip \<and> hook \<noteq> None \<longrightarrow>
         fst out = Written (httpError Map.empty ErrConnectionDenied 403)
         \<and> evs = [EvIsNewConnectionAllowed, EvIsBanned ip,
                   EvExecutePostConnectHook ip (ProtocolWebDAV e)])
    \<and> (IsNewConnectionAllowed e \<and> \<not> IsBanned e ip \<and> hook = None \<longrightarrow>
         take 3 evs = [EvIsNewConnectionAllowed, EvIsBanned ip,
                       EvExecutePostConnectHook ip (ProtocolWebDAV e)])"
proof -
  define ip where "ip = GetIPFromRemoteAddress e (RemoteAddr (checkRemoteAddress e r))"
  have early: "\<not> IsNewConnectionAllowed e \<or> IsBanned e ip
        \<or> ExecutePostConnectHook e ip (ProtocolWebDAV e) \<noteq> None \<Longrightarrow> ?thesis"
    by (auto simp add: ServeHTTP_def Let_def eventsSince_def trace_emit emit_def ip_def)
  have late: "IsNewConnectionAllowed e \<Longrightarrow> \<not> IsBanned e ip
        \<Longrightarrow> ExecutePostConnectHook e ip (ProtocolWebDAV e) = None \<Longrightarrow> ?thesis"
  proof -
    assume a: "IsNewConnectionAllowed e" "\<not> IsBanned e ip"
      "ExecutePostConnectHook e ip (ProtocolWebDAV e) = None"
    from ServeHTTP_connection_passed [OF a(1) ip_def a(2) a(3), of w]
    obtain rest where "trace (snd (snd (ServeHTTP e r w))) =
        trace w @ [EvIsNewConnectionAllowed, EvIsBanned ip,
                   EvExecutePostConnectHook ip (ProtocolWebDAV e)] @ rest"
      by blast
    then show ?thesis
      using a by (simp add: Let_def eventsSince_def ip_def [symmetric])
  qed
  show ?thesis using early late by blast
qed

text \<open>
  The concrete deployment with the ceiling reached, with a request from the banned
  address, with a hook that refuses, and as it is.
\<close>

theorem ServeHTTP_connection_admission_witness:
  "fst (ServeHTTP (exampleEnv\<lparr>IsNewConnectionAllowed := False\<rparr>) exampleRequest exampleWorld)
     = Written (httpError Map.empty ErrConnectionDenied 503)
   \<and> StatusCode (httpError Map.empty ErrConnectionDenied 503) = 503
   \<and> eventsSince exampleWorld
       (snd (snd (ServeHTTP (exampleEnv\<lparr>IsNewConnectionAllowed := False\<rparr>) exampleRequest exampleWorld)))
     = [EvIsNewConnectionAllowed, EvLog LevelDebug []]
   \<and> fst (ServeHTTP exampleEnv (exampleRequest\<lparr>RemoteAddr := ''203.0.113.66:5555''\<rparr>) exampleWorld)
     = Written (httpError Map.empty ErrConnectionDenied 403)
   \<and> eventsSince exampleWorld
       (snd (snd (ServeHTTP exampleEnv (exampleRequest\<lparr>RemoteAddr := ''203.0.113.66:5555''\<rparr>) exampleWorld)))
     = [EvIsNewConnectionAllowed, EvIsBanned ''203.0.113.66'']
   \<and> fst (ServeHTTP (exampleEnv\<lparr>ExecutePostConnectHook := (\<lambda>ip protocol. Some (OtherError ''hook''))\<rparr>)
        exampleRequest exampleWorld)
     = Written (httpError Map.empty ErrConnectionDenied 403)
   \<and> eventsSince exampleWorld
       (snd (snd (ServeHTTP (exampleEnv\<lparr>ExecutePostConnectHook := (\<lambda>ip protocol. Some (OtherError ''hook''))\<rparr>)
        exampleRequest exampleWorld)))
     = [EvIsNewConnectionAllowed, EvIsBanned ''198.51.100.7'',
        EvExecutePostConnectHook ''198.51.100.7'' ''DAV'']
   \<and> take 3 (eventsSince exampleWorld (snd (snd (ServeHTTP exampleEnv exampleRequest exampleWorld))))
     = [EvIsNewConnectionAllowed, EvIsBanned ''198.51.100.7'',
        EvExecutePostConnectHook ''198.51.100.7'' ''DAV'']"
  using
    ServeHTTP_connection_admission
      [of "exampleEnv\<lparr>IsNewConnectionAllowed := False\<rparr>" exampleRequest exampleWorld]
    ServeHTTP_connection_admission
      [of exampleEnv "exampleRequest\<lparr>RemoteAddr := ''203.0.113.66:5555''\<rparr>" exampleWorld]
    ServeHTTP_connection_admission
      [of "exampleEnv\<lparr>ExecutePostConnectHook := (\<lambda>ip protocol. Some (OtherError ''hook''))\<rparr>"
          exampleRequest exampleWorld]
    ServeHTTP_connection_admission [of exampleEnv exampleRequest exampleWorld]
  by (simp add: Let_def exampleEnv_def exampleRequest_def checkRemoteAddress_def headerGet_def
        xRealIP_def xForwardedFor_def httpError_def)

text \<open>
  C7, as the code has it. For a request that got past the connection-level checks and
  carries Basic credentials, the events of the outcome reporter in the run are exactly
  those of one call of \<^verbatim>\<open>updateLoginMetrics\<close>, whatever the outcome, and the call
  reports no error exactly when the request is admitted (handed to the handler, or
  answered 207): the ban-list event and the record of the failed login are there exactly
  on failure. For a request without valid Basic credentials the answer is 401 and the
  outcome reporter is not called.
\<close>

theorem ServeHTTP_reports_once:
  "let ip = GetIPFromRemoteAddress e (RemoteAddr (checkRemoteAddress e r));
       out = ServeHTTP e r w;
       reports = filter isReporterEvent (eventsSince w (snd (snd out)))
   in IsNewConnectionAllowed e \<and> \<not> IsBanned e ip
      \<and> ExecutePostConnectHook e ip (ProtocolWebDAV e) = None \<longrightarrow>
        (BasicAuth e r \<noteq> None \<longrightarrow>
           (\<exists>user err. reports = reportEvents e user ip err
              \<and> (err = None) = (case fst out of
                                  Handler req ls \<Rightarrow> True
                                | Written resp \<Rightarrow> StatusCode resp = 207)))
      \<and> (BasicAuth e r = None \<longrightarrow>
           reports = []
           \<and> fst out = Written (httpError (headerSet Map.empty ''Www-Authenticate'' wwwAuthenticate)
                                  err401 401))"
proof -
  define ip where "ip = GetIPFromRemoteAddress e (RemoteAddr (checkRemoteAddress e r))"
  have "IsNewConnectionAllowed e \<Longrightarrow> \<not> IsBanned e ip
        \<Longrightarrow> ExecutePostConnectHook e ip (ProtocolWebDAV e) = None \<Longrightarrow> ?thesis"
  proof -
    assume a: "IsNewConnectionAllowed e" "\<not> IsBanned e ip"
      "ExecutePostConnectHook e ip (ProtocolWebDAV e) = None"
    from ServeHTTP_connection_passed [OF a(1) ip_def a(2) a(3), of w]
    obtain rest where tr: "trace (snd (snd (ServeHTTP e r w))) =
        trace w @ [EvIsNewConnectionAllowed, EvIsBanned ip,
                   EvExecutePostConnectHook ip (ProtocolWebDAV e)] @ rest"
      and cs: "case BasicAuth e r of
           None \<Rightarrow>
             rest = []
             \<and> fst (ServeHTTP e r w) =
                 Written (httpError (headerSet Map.empty ''Www-Authenticate'' wwwAuthenticate) err401 401)
         | Some c \<Rightarrow>
             (\<exists>user err. filter isReporterEvent rest = reportEvents e user ip err
                \<and> (err = None) = (case fst (ServeHTTP e r w) of
                                    Handler req ls \<Rightarrow> True
                                  | Written resp \<Rightarrow> StatusCode resp = 207))"
      by blast
    have f: "filter isReporterEvent (eventsSince w (snd (snd (ServeHTTP e r w))))
             = filter isReporterEvent rest"
      using tr by (simp add: eventsSince_def)
    show ?thesis
      using cs f by (cases "BasicAuth e r") (simp_all add: Let_def ip_def [symmetric])
  qed
  then show ?thesis
    by (auto simp add: Let_def ip_def)
qed

text \<open>
  A login of alice that succeeds, one with a wrong password that the provider rejects,
  and a request without credentials.
\<close>

theorem ServeHTTP_reports_once_witness:
  "filter isReporterEvent
     (eventsSince exampleWorld (snd (snd (ServeHTTP exampleEnv exampleRequest exampleWorld))))
     = reportEvents exampleEnv alice ''198.51.100.7'' None
   \<and> reportEvents exampleEnv alice ''198.51.100.7'' None
     = [EvAddLoginAttempt ''password'', EvAddLoginResult ''password'' None,
        EvExecutePostLoginHook alice ''password'' ''198.51.100.7'' ''DAV'' None]
   \<and> filter isReporterEvent
     (eventsSince exampleWorld
        (snd (snd (ServeHTTP exampleEnv
           (exampleRequest\<lparr>Header := [''Authorization'' \<mapsto> [''Basic YWxpY2U6d3Jvbmc='']]\<rparr>)
           exampleWorld))))
     = reportEvents exampleEnv (zeroUser\<lparr>Username := ''alice''\<rparr>) ''198.51.100.7''
         (Some ErrInvalidCredentials)
   \<and> filter isReporterEvent
     (eventsSince exampleWorld
        (snd (snd (ServeHTTP exampleEnv (exampleRequest\<lparr>Header := Map.empty\<rparr>) exampleWorld))))
     = []"
  using
    ServeHTTP_reports_once [of exampleEnv exampleRequest exampleWorld]
    ServeHTTP_reports_once
      [of exampleEnv "exampleRequest\<lparr>Header := [''Authorization'' \<mapsto> [''Basic YWxpY2U6d3Jvbmc='']]\<rparr>"
          exampleWorld]
    ServeHTTP_reports_once [of exampleEnv "exampleRequest\<lparr>Header := Map.empty\<rparr>" exampleWorld]
  by (simp add: ServeHTTP_def auth_defs validateUser_def checkRequestMethod_def BasicAuth_def
        checkRemoteAddress_def headerGet_def headerAdd_def xRealIP_def xForwardedFor_def
        eventsSince_def reportEvents_def exampleEnv_def exampleRequest_def exampleWorld_def
        alice_def zeroUser_def)

text \<open>
  C7 fails as stated: a request with no \<^verbatim>\<open>Authorization\<close> header, and one whose
  header is not Basic, are answered 401 by lines 205-207 and 152-156, and the run holds
  the three connection-level checks and no event of the outcome reporter.
\<close>

theorem ServeHTTP_report_counterexample:
  "BasicAuth exampleEnv (exampleRequest\<lparr>Header := Map.empty\<rparr>) = None
   \<and> fst (ServeHTTP exampleEnv (exampleRequest\<lparr>Header := Map.empty\<rparr>) exampleWorld)
     = Written (httpError (headerSet Map.empty ''Www-Authenticate'' wwwAuthenticate) err401 401)
   \<and> eventsSince exampleWorld
       (snd (snd (ServeHTTP exampleEnv (exampleRequest\<lparr>Header := Map.empty\<rparr>) exampleWorld)))
     = [EvIsNewConnectionAllowed, EvIsBanned ''198.51.100.7'',
        EvExecutePostConnectHook ''198.51.100.7'' ''DAV'']
   \<and> filter isReporterEvent
       (eventsSince exampleWorld
          (snd (snd (ServeHTTP exampleEnv (exampleRequest\<lparr>Header := Map.empty\<rparr>) exampleWorld))))
     = []
   \<and> BasicAuth exampleEnv
       (exampleRequest\<lparr>Header := [''Authorization'' \<mapsto> [''Bearer c2VjcmV0'']]\<rparr>) = None
   \<and> eventsSince exampleWorld
       (snd (snd (ServeHTTP exampleEnv
          (exampleRequest\<lparr>Header := [''Authorization'' \<mapsto> [''Bearer c2VjcmV0'']]\<rparr>) exampleWorld)))
     = [EvIsNewConnectionAllowed, EvIsBanned ''198.51.100.7'',
        EvExecutePostConnectHook ''198.51.100.7'' ''DAV'']"
  by (simp add: ServeHTTP_def authenticate_def BasicAuth_def emit_def Let_def
        checkRemoteAddress_def headerGet_def xRealIP_def xForwardedFor_def
        eventsSince_def exampleEnv_def exampleRequest_def exampleWorld_def)

subsection \<open>Theorems: the proxy address resolution\<close>

text \<open>
  C8, as the code has it by design. With no proxy protocol configured, the first value
  of \<^verbatim>\<open>X-Real-IP\<close> when it is not empty, and otherwise the first comma-separated
  value of \<^verbatim>\<open>X-Forwarded-For\<close>, with the white space around it trimmed, replaces
  the remote address of the request when it is not empty; with a proxy protocol
  configured the request is left as it is. The first comma-separated value is stated
  for a header that holds no comma (one value) and for a header whose first comma is
  followed by a space; nothing is stated for a first comma with no space after it. In
  \<^verbatim>\<open>ServeHTTP\<close> the replacement comes after the check of the global connection
  ceiling, which does not read the address, and before the check of the ban list and
  everything after it: when the ceiling is reached the request is left untouched,
  otherwise the ban list is asked about the replaced address.
\<close>

theorem checkRemoteAddress_resolution:
  "let r1 = checkRemoteAddress e r;
       xrip = headerGet (Header r) xRealIP;
       xff = headerGet (Header r) xForwardedFor;
       out = ServeHTTP e r w;
       evs = eventsSince w (snd (snd out))
   in (ProxyProtocol e \<noteq> 0 \<longrightarrow> r1 = r)
    \<and> (ProxyProtocol e = 0 \<and> xrip \<noteq> [] \<longrightarrow> r1 = r\<lparr>RemoteAddr := xrip\<rparr>)
    \<and> (ProxyProtocol e = 0 \<and> xrip = [] \<and> xff = a @ '', '' @ b
         \<and> CHR '','' \<notin> set a \<longrightarrow>
         r1 = (if TrimSpace e a = [] then r else r\<lparr>RemoteAddr := TrimSpace e a\<rparr>))
    \<and> (ProxyProtocol e = 0 \<and> xrip = [] \<and> xff \<noteq> []
         \<and> CHR '','' \<notin> set xff \<longrightarrow>
         r1 = (if TrimSpace e xff = [] then r else r\<lparr>RemoteAddr := TrimSpace e xff\<rparr>))
    \<and> (ProxyProtocol e = 0 \<and> xrip = [] \<and> xff = [] \<longrightarrow> r1 = r)
    \<and> (\<not> IsNewConnectionAllowed e \<longrightarrow>
         fst (snd out) = r \<and> evs = [EvIsNewConnectionAllowed, EvLog LevelDebug []])
    \<and> (IsNewConnectionAllowed e \<longrightarrow>
         RemoteAddr (fst (snd out)) = RemoteAddr r1
         \<and> take 2 evs = [EvIsNewConnectionAllowed,
                         EvIsBanned (GetIPFromRemoteAddress e (RemoteAddr r1))])"
proof -
  have "\<not> IsNewConnectionAllowed e \<longrightarrow>
         fst (snd (ServeHTTP e r w)) = r
         \<and> eventsSince w (snd (snd (ServeHTTP e r w))) = [EvIsNewConnectionAllowed, EvLog LevelDebug []]"
    by (simp add: ServeHTTP_def Let_def eventsSince_def trace_emit)
  then show ?thesis
    using checkRemoteAddress_proxy [of e r] checkRemoteAddress_xrip [of e r]
      checkRemoteAddress_xff_first [of e r a b] checkRemoteAddress_xff_whole [of e r]
      checkRemoteAddress_none [of e r] ServeHTTP_address [of e r w]
    unfolding Let_def by blast
qed

text \<open>
  Both headers set (\<^verbatim>\<open>X-Real-IP\<close> wins), \<^verbatim>\<open>X-Forwarded-For\<close> alone with two
  values, a proxy protocol configured, the address the ban list is asked about, and the
  request left untouched at the ceiling.
\<close>

theorem checkRemoteAddress_resolution_witness:
  "RemoteAddr (checkRemoteAddress exampleEnv
      (exampleRequest\<lparr>Header := [''X-Real-Ip'' \<mapsto> [''192.0.2.9''],
                                 ''X-Forwarded-For'' \<mapsto> [''192.0.2.44, 10.0.0.1'']]\<rparr>))
     = ''192.0.2.9''
   \<and> RemoteAddr (checkRemoteAddress exampleEnv
      (exampleRequest\<lparr>Header := [''X-Forwarded-For'' \<mapsto> [''192.0.2.44, 10.0.0.1'']]\<rparr>))
     = ''192.0.2.44''
   \<and> RemoteAddr (checkRemoteAddress (exampleEnv\<lparr>ProxyProtocol := 1\<rparr>)
      (exampleRequest\<lparr>Header := [''X-Real-Ip'' \<mapsto> [''192.0.2.9'']]\<rparr>))
     = ''198.51.100.7:40312''
   \<and> take 2 (eventsSince exampleWorld (snd (snd (ServeHTTP exampleEnv
      (exampleRequest\<lparr>Header := [''X-Real-Ip'' \<mapsto> [''192.0.2.9'']]\<rparr>) exampleWorld))))
     = [EvIsNewConnectionAllowed, EvIsBanned ''192.0.2.9'']
   \<and> fst (snd (ServeHTTP (exampleEnv\<lparr>IsNewConnectionAllowed := False\<rparr>)
      (exampleRequest\<lparr>Header := [''X-Real-Ip'' \<mapsto> [''192.0.2.9'']]\<rparr>) exampleWorld))
     = exampleRequest\<lparr>Header := [''X-Real-Ip'' \<mapsto> [''192.0.2.9'']]\<rparr>"
proof -
  show ?thesis
    using
      checkRemoteAddress_resolution
        [of exampleEnv
            "exampleRequest\<lparr>Header := [''X-Real-Ip'' \<mapsto> [''192.0.2.9''],
                                       ''X-Forwarded-For'' \<mapsto> [''192.0.2.44, 10.0.0.1'']]\<rparr>"
            exampleWorld "''192.0.2.44''" "''10.0.0.1''"]
      checkRemoteAddress_resolution
        [of exampleEnv
            "exampleRequest\<lparr>Header := [''X-Forwarded-For'' \<mapsto> [''192.0.2.44, 10.0.0.1'']]\<rparr>"
            exampleWorld "''192.0.2.44''" "''10.0.0.1''"]
      checkRemoteAddress_resolution
        [of "exampleEnv\<lparr>ProxyProtocol := 1\<rparr>"
            "exampleRequest\<lparr>Header := [''X-Real-Ip'' \<mapsto> [''192.0.2.9'']]\<rparr>"
            exampleWorld "''192.0.2.44''" "''10.0.0.1''"]
      checkRemoteAddress_resolution
        [of exampleEnv "exampleRequest\<lparr>Header := [''X-Real-Ip'' \<mapsto> [''192.0.2.9'']]\<rparr>"
            exampleWorld "''192.0.2.44''" "''10.0.0.1''"]
      checkRemoteAddress_resolution
        [of "exampleEnv\<lparr>IsNewConnectionAllowed := False\<rparr>"
            "exampleRequest\<lparr>Header := [''X-Real-Ip'' \<mapsto> [''192.0.2.9'']]\<rparr>"
            exampleWorld "''192.0.2.44''" "''10.0.0.1''"]
    by (simp add: Let_def headerGet_def xRealIP_def xForwardedFor_def exampleEnv_def
          exampleRequest_def)
qed

text \<open>
  C8 fails as stated: with no proxy protocol configured, a \<^verbatim>\<open>X-Real-IP\<close> header
  set and the ceiling reached, the request is answered 503 with its remote address
  unreplaced, the check of the ceiling having run first (line 136 before line 141).
\<close>

theorem checkRemoteAddress_counterexample:
  "ProxyProtocol (exampleEnv\<lparr>IsNewConnectionAllowed := False\<rparr>) = 0
   \<and> headerGet (Header (exampleRequest\<lparr>Header := [''X-Real-Ip'' \<mapsto> [''192.0.2.9'']]\<rparr>)) xRealIP
     = ''192.0.2.9''
   \<and> ServeHTTP (exampleEnv\<lparr>IsNewConnectionAllowed := False\<rparr>)
       (exampleRequest\<lparr>Header := [''X-Real-Ip'' \<mapsto> [''192.0.2.9'']]\<rparr>) exampleWorld
     = (Written (httpError Map.empty ErrConnectionDenied 503),
        exampleRequest\<lparr>Header := [''X-Real-Ip'' \<mapsto> [''192.0.2.9'']]\<rparr>,
        exampleWorld\<lparr>trace := [EvIsNewConnectionAllowed, EvLog LevelDebug []]\<rparr>)
   \<and> RemoteAddr (exampleRequest\<lparr>Header := [''X-Real-Ip'' \<mapsto> [''192.0.2.9'']]\<rparr>)
     = ''198.51.100.7:40312''"
  by (simp add: ServeHTTP_def checkRemoteAddress_def emit_def Let_def headerGet_def xRealIP_def
        xForwardedFor_def exampleEnv_def exampleRequest_def exampleWorld_def)

subsection \<open>Lemmas: the request preprocessor in the pipeline\<close>

lemma checkRequestMethod_fst:
  "fst (checkRequestMethod e r c w) = fst (checkRequestMethod e r c w')"
  by (simp add: checkRequestMethod_def Let_def split: sum.splits)

lemma ServeHTTP_preprocessed:
  assumes allowed: "IsNewConnectionAllowed e"
      and ip: "ip = GetIPFromRemoteAddress e (RemoteAddr (checkRemoteAddress e r))"
      and notbanned: "\<not> IsBanned e ip"
      and hook: "ExecutePostConnectHook e ip (ProtocolWebDAV e) = None"
      and A: "authenticate e (checkRemoteAddress e r) ip
                (emit (EvExecutePostConnectHook ip (ProtocolWebDAV e))
                   (emit (EvIsBanned ip) (emit EvIsNewConnectionAllowed w))) = (auth, w4)"
      and authok: "authErr auth = None"
      and V: "validateUser e (authUser auth) (checkRemoteAddress e r) w4 = ((cid, None), w5)"
      and F: "GetFilesystem e (authUser auth) cid = Inr fs"
      and pre: "pre = fst (checkRequestMethod e (checkRemoteAddress e r)
                             \<lparr>ID = cid, ConnUser = authUser auth, Fs = fs\<rparr> w)"
  shows "fst (ServeHTTP e r w) =
           (if fst pre then
              Written \<lparr>StatusCode = 207,
                       RespHeader = headerSet Map.empty ''Content-Type'' ''text/xml; charset=utf-8'',
                       Body = Bytes []\<rparr>
            else Handler (snd pre) (lockSystem auth))
       \<and> fst (snd (ServeHTTP e r w)) = snd pre
       \<and> (fst pre \<longrightarrow>
            (\<forall>req ls. EvHandlerServeHTTP req ls
               \<notin> set (eventsSince w (snd (snd (ServeHTTP e r w))))))"
proof -
  define r1 where "r1 = checkRemoteAddress e r"
  define user where "user = authUser auth"
  define conn where "conn = \<lparr>ID = cid, ConnUser = user, Fs = fs\<rparr>"
  define w3 where "w3 = emit (EvExecutePostConnectHook ip (ProtocolWebDAV e))
                          (emit (EvIsBanned ip) (emit EvIsNewConnectionAllowed w))"
  define w9 where "w9 = emit (EvUpdateLastLogin user) (emit (EvConnectionsAdd cid)
                     (updateLoginMetrics e user ip None (emit (EvGetFilesystem user cid) w5)))"
  obtain handled r2 w10 where C: "checkRequestMethod e r1 conn w9 = ((handled, r2), w10)"
    by (cases "checkRequestMethod e r1 conn w9") auto
  have pre': "pre = (handled, r2)"
    using C checkRequestMethod_fst [of e r1 conn w w9]
    by (simp add: pre r1_def conn_def user_def)
  have S: "ServeHTTP e r w =
      (if handled then
         (Written \<lparr>StatusCode = 207,
                   RespHeader = headerSet Map.empty ''Content-Type'' ''text/xml; charset=utf-8'',
                   Body = Bytes []\<rparr>,
          r2, emit (EvConnectionsRemove cid) w10)
       else
         (Handler r2 (lockSystem auth), r2,
          emit (EvConnectionsRemove cid) (emit (EvHandlerServeHTTP r2 (lockSystem auth)) w10)))"
    using allowed notbanned hook A authok V F C
    unfolding r1_def user_def conn_def w9_def ip
    by (simp add: ServeHTTP_def Let_def)
  obtain evsA where evsA: "trace w4 = trace w3 @ evsA"
      and hA: "\<forall>req ls. EvHandlerServeHTTP req ls \<notin> set evsA"
    using authenticate_events [of e r1 ip w3] A
    by (auto simp add: r1_def w3_def)
  obtain evsV where evsV: "trace w5 = trace w4 @ evsV"
      and hV: "\<forall>req ls. EvHandlerServeHTTP req ls \<notin> set evsV"
    using validateUser_events [of e user r1 w4] V
    by (auto simp add: r1_def user_def)
  obtain evsC where evsC: "trace w10 = trace w9 @ evsC"
      and hC: "\<forall>req ls. EvHandlerServeHTTP req ls \<notin> set evsC"
    using checkRequestMethod_events [of e r1 conn w9] C by auto
  have w3: "trace w3 = trace w @ [EvIsNewConnectionAllowed, EvIsBanned ip,
                                   EvExecutePostConnectHook ip (ProtocolWebDAV e)]"
    by (simp add: w3_def trace_emit)
  have w9: "trace w9 = trace w5 @ [EvGetFilesystem user cid] @ reportEvents e user ip None
                    @ [EvConnectionsAdd cid, EvUpdateLastLogin user]"
    by (simp add: w9_def trace_emit updateLoginMetrics_eq)
  show ?thesis
    using S pre' evsA hA evsV hV evsC hC w3 w9
    by (cases handled)
       (simp_all add: eventsSince_def trace_emit reportEvents_no_handler)
qed


lemma checkRequestMethod_cases:
  "let pre = fst (checkRequestMethod e r connection w);
       dir = (case Stat e connection (Clean e (URLPath r)) of
                Inr info \<Rightarrow> IsDir info | Inl er \<Rightarrow> False)
   in (fst pre \<longleftrightarrow> Method r = ''HEAD'' \<and> dir)
    \<and> (fst pre \<longrightarrow> snd pre = r)
    \<and> (Method r = ''GET'' \<and> dir \<longrightarrow>
         Method (snd pre) = ''PROPFIND'' \<and> URLPath (snd pre) = URLPath r
         \<and> RemoteAddr (snd pre) = RemoteAddr r
         \<and> (\<forall>key. key \<noteq> ''Depth'' \<longrightarrow> Header (snd pre) key = Header r key))
    \<and> (Method r = ''GET'' \<and> dir \<and> Header r ''Depth'' = None \<longrightarrow>
         Header (snd pre) = (Header r)(''Depth'' \<mapsto> [''1'']))
    \<and> (Method r = ''GET'' \<and> dir \<and> headerGet (Header r) ''Depth'' \<noteq> [] \<longrightarrow>
         Header (snd pre) = Header r)
    \<and> (\<not> ((Method r = ''GET'' \<or> Method r = ''HEAD'') \<and> dir) \<longrightarrow> \<not> fst pre \<and> snd pre = r)"
  by (auto simp add: checkRequestMethod_def Let_def headerGet_def headerAdd_def split: sum.splits)

subsection \<open>Theorems: the request preprocessor\<close>

text \<open>
  C6, as the code has it by design. \<^verbatim>\<open>checkRequestMethod\<close> returns true exactly
  when the method is HEAD and the cleaned path stats as a directory, and then leaves the
  request as it is. For GET on a directory it returns false, changes the method to
  PROPFIND and leaves the path, the remote address and every header other than
  \<^verbatim>\<open>Depth\<close> as they are; when the request has no \<^verbatim>\<open>Depth\<close> header it gets one
  with the value \<^verbatim>\<open>1\<close>, and a \<^verbatim>\<open>Depth\<close> header whose first value is not empty
  is left untouched. Nothing is stated about a \<^verbatim>\<open>Depth\<close> header whose first value
  is empty. In every other case (another method, not a directory, a failed stat) it
  returns false and leaves the request as it is. In
  \<^verbatim>\<open>ServeHTTP\<close>, for a request that passed the connection-level checks, the
  authentication, the identity-level checks and the opening of the file system: when
  the preprocessor returns true the response is 207 with an empty body, the request is
  the one the address resolution left and the handler is not called; otherwise the
  handler gets the preprocessed request.
\<close>

theorem checkRequestMethod_directory:
  "let pre = fst (checkRequestMethod e r connection w);
       dir = (case Stat e connection (Clean e (URLPath r)) of
                Inr info \<Rightarrow> IsDir info | Inl er \<Rightarrow> False);
       r1 = checkRemoteAddress e r;
       ip = GetIPFromRemoteAddress e (RemoteAddr r1);
       w3 = emit (EvExecutePostConnectHook ip (ProtocolWebDAV e))
              (emit (EvIsBanned ip) (emit EvIsNewConnectionAllowed w));
       auth = authenticate e r1 ip w3;
       user = authUser (fst auth);
       valid = validateUser e user r1 (snd auth);
       cid = fst (fst valid);
       pre1 = fst (checkRequestMethod e r1 \<lparr>ID = cid, ConnUser = user, Fs = fs\<rparr> w);
       out = ServeHTTP e r w
   in (fst pre \<longleftrightarrow> Method r = ''HEAD'' \<and> dir)
    \<and> (fst pre \<longrightarrow> snd pre = r)
    \<and> (Method r = ''GET'' \<and> dir \<longrightarrow>
         Method (snd pre) = ''PROPFIND'' \<and> URLPath (snd pre) = URLPath r
         \<and> RemoteAddr (snd pre) = RemoteAddr r
         \<and> (\<forall>key. key \<noteq> ''Depth'' \<longrightarrow> Header (snd pre) key = Header r key))
    \<and> (Method r = ''GET'' \<and> dir \<and> Header r ''Depth'' = None \<longrightarrow>
         Header (snd pre) = (Header r)(''Depth'' \<mapsto> [''1'']))
    \<and> (Method r = ''GET'' \<and> dir \<and> headerGet (Header r) ''Depth'' \<noteq> [] \<longrightarrow>
         Header (snd pre) = Header r)
    \<and> (\<not> ((Method r = ''GET'' \<or> Method r = ''HEAD'') \<and> dir) \<longrightarrow> \<not> fst pre \<and> snd pre = r)
    \<and> (IsNewConnectionAllowed e \<and> \<not> IsBanned e ip
        \<and> ExecutePostConnectHook e ip (ProtocolWebDAV e) = None
        \<and> authErr (fst auth) = None \<and> snd (fst valid) = None
        \<and> GetFilesystem e user cid = Inr fs \<longrightarrow>
          (fst pre1 \<longrightarrow>
             fst out = Written \<lparr>StatusCode = 207,
                                RespHeader = headerSet Map.empty ''Content-Type''
                                               ''text/xml; charset=utf-8'',
                                Body = Bytes []\<rparr>
             \<and> fst (snd out) = r1
             \<and> (\<forall>req ls. EvHandlerServeHTTP req ls \<notin> set (eventsSince w (snd (snd out)))))
        \<and> (\<not> fst pre1 \<longrightarrow>
             fst out = Handler (snd pre1) (lockSystem (fst auth)) \<and> fst (snd out) = snd pre1))"
proof -
  let ?r1 = "checkRemoteAddress e r"
  let ?ip = "GetIPFromRemoteAddress e (RemoteAddr ?r1)"
  let ?w3 = "emit (EvExecutePostConnectHook ?ip (ProtocolWebDAV e))
               (emit (EvIsBanned ?ip) (emit EvIsNewConnectionAllowed w))"
  let ?auth = "authenticate e ?r1 ?ip ?w3"
  let ?user = "authUser (fst ?auth)"
  let ?valid = "validateUser e ?user ?r1 (snd ?auth)"
  let ?cid = "fst (fst ?valid)"
  let ?pre1 = "fst (checkRequestMethod e ?r1 \<lparr>ID = ?cid, ConnUser = ?user, Fs = fs\<rparr> w)"
  let ?out = "ServeHTTP e r w"
  let ?multi = "Written \<lparr>StatusCode = 207,
                         RespHeader = headerSet Map.empty ''Content-Type'' ''text/xml; charset=utf-8'',
                         Body = Bytes []\<rparr>"
  have served: "fst ?out = (if fst ?pre1 then ?multi else Handler (snd ?pre1) (lockSystem (fst ?auth)))
       \<and> fst (snd ?out) = snd ?pre1
       \<and> (fst ?pre1 \<longrightarrow>
            (\<forall>req ls. EvHandlerServeHTTP req ls \<notin> set (eventsSince w (snd (snd ?out)))))"
    if a: "IsNewConnectionAllowed e" "\<not> IsBanned e ?ip"
      "ExecutePostConnectHook e ?ip (ProtocolWebDAV e) = None"
      "authErr (fst ?auth) = None" "snd (fst ?valid) = None"
      "GetFilesystem e ?user ?cid = Inr fs"
  proof (rule ServeHTTP_preprocessed [where ?w4.0 = "snd ?auth" and ?w5.0 = "snd ?valid"])
    show "IsNewConnectionAllowed e" by (rule a(1))
    show "?ip = GetIPFromRemoteAddress e (RemoteAddr (checkRemoteAddress e r))" by simp
    show "\<not> IsBanned e ?ip" by (rule a(2))
    show "ExecutePostConnectHook e ?ip (ProtocolWebDAV e) = None" by (rule a(3))
    show "authenticate e ?r1 ?ip ?w3 = (fst ?auth, snd ?auth)" by simp
    show "authErr (fst ?auth) = None" by (rule a(4))
    show "validateUser e ?user ?r1 (snd ?auth) = ((?cid, None), snd ?valid)"
      using a(5) by (simp add: prod_eq_iff)
    show "GetFilesystem e ?user ?cid = Inr fs" by (rule a(6))
    show "?pre1 = fst (checkRequestMethod e ?r1 \<lparr>ID = ?cid, ConnUser = ?user, Fs = fs\<rparr> w)"
      by simp
  qed
  have pre1: "fst ?pre1 \<longrightarrow> snd ?pre1 = ?r1"
    using checkRequestMethod_cases [of e ?r1 "\<lparr>ID = ?cid, ConnUser = ?user, Fs = fs\<rparr>" w]
    by (simp add: Let_def)
  have part2: "IsNewConnectionAllowed e \<and> \<not> IsBanned e ?ip
        \<and> ExecutePostConnectHook e ?ip (ProtocolWebDAV e) = None
        \<and> authErr (fst ?auth) = None \<and> snd (fst ?valid) = None
        \<and> GetFilesystem e ?user ?cid = Inr fs \<longrightarrow>
          (fst ?pre1 \<longrightarrow>
             fst ?out = ?multi
             \<and> fst (snd ?out) = ?r1
             \<and> (\<forall>req ls. EvHandlerServeHTTP req ls \<notin> set (eventsSince w (snd (snd ?out)))))
        \<and> (\<not> fst ?pre1 \<longrightarrow>
             fst ?out = Handler (snd ?pre1) (lockSystem (fst ?auth)) \<and> fst (snd ?out) = snd ?pre1)"
  proof (intro impI)
    assume h: "IsNewConnectionAllowed e \<and> \<not> IsBanned e ?ip
        \<and> ExecutePostConnectHook e ?ip (ProtocolWebDAV e) = None
        \<and> authErr (fst ?auth) = None \<and> snd (fst ?valid) = None
        \<and> GetFilesystem e ?user ?cid = Inr fs"
    have s: "fst ?out = (if fst ?pre1 then ?multi else Handler (snd ?pre1) (lockSystem (fst ?auth)))
       \<and> fst (snd ?out) = snd ?pre1
       \<and> (fst ?pre1 \<longrightarrow>
            (\<forall>req ls. EvHandlerServeHTTP req ls \<notin> set (eventsSince w (snd (snd ?out)))))"
      using h by (intro served) simp_all
    show "(fst ?pre1 \<longrightarrow>
             fst ?out = ?multi
             \<and> fst (snd ?out) = ?r1
             \<and> (\<forall>req ls. EvHandlerServeHTTP req ls \<notin> set (eventsSince w (snd (snd ?out)))))
        \<and> (\<not> fst ?pre1 \<longrightarrow>
             fst ?out = Handler (snd ?pre1) (lockSystem (fst ?auth)) \<and> fst (snd ?out) = snd ?pre1)"
    proof (cases "fst ?pre1")
      case True
      then show ?thesis using s pre1 by simp
    next
      case False
      then show ?thesis using s by simp
    qed
  qed
  show ?thesis
    unfolding Let_def
    using checkRequestMethod_cases [of e r connection w, unfolded Let_def] part2
    by blast
qed



text \<open>
  In the concrete deployment: HEAD on the directory \<^verbatim>\<open>/docs\<close> through the pipeline,
  then GET on it with no \<^verbatim>\<open>Depth\<close> header and with \<^verbatim>\<open>Depth: 0\<close>, GET on a file and
  PUT on the directory.
\<close>

theorem checkRequestMethod_directory_witness:
  "fst (ServeHTTP exampleEnv (exampleRequest\<lparr>Method := ''HEAD''\<rparr>) exampleWorld)
     = Written \<lparr>StatusCode = 207,
                RespHeader = headerSet Map.empty ''Content-Type'' ''text/xml; charset=utf-8'',
                Body = Bytes []\<rparr>
   \<and> fst (snd (ServeHTTP exampleEnv (exampleRequest\<lparr>Method := ''HEAD''\<rparr>) exampleWorld))
     = exampleRequest\<lparr>Method := ''HEAD''\<rparr>
   \<and> (\<forall>req ls. EvHandlerServeHTTP req ls \<notin> set (eventsSince exampleWorld
         (snd (snd (ServeHTTP exampleEnv (exampleRequest\<lparr>Method := ''HEAD''\<rparr>) exampleWorld)))))
   \<and> fst (checkRequestMethod exampleEnv exampleRequest
            \<lparr>ID = ''c5q8o3v2a1b4d6e7f9g0'', ConnUser = alice, Fs = 3\<rparr> exampleWorld)
     = (False, exampleRequest\<lparr>Method := ''PROPFIND'',
                 Header := (Header exampleRequest)(''Depth'' \<mapsto> [''1''])\<rparr>)
   \<and> fst (checkRequestMethod exampleEnv
            (exampleRequest\<lparr>Header := [''Depth'' \<mapsto> [''0'']]\<rparr>)
            \<lparr>ID = ''c5q8o3v2a1b4d6e7f9g0'', ConnUser = alice, Fs = 3\<rparr> exampleWorld)
     = (False, exampleRequest\<lparr>Method := ''PROPFIND'', Header := [''Depth'' \<mapsto> [''0'']]\<rparr>)
   \<and> fst (checkRequestMethod exampleEnv (exampleRequest\<lparr>URLPath := ''/docs/a.txt''\<rparr>)
            \<lparr>ID = ''c5q8o3v2a1b4d6e7f9g0'', ConnUser = alice, Fs = 3\<rparr> exampleWorld)
     = (False, exampleRequest\<lparr>URLPath := ''/docs/a.txt''\<rparr>)
   \<and> fst (checkRequestMethod exampleEnv (exampleRequest\<lparr>Method := ''PUT''\<rparr>)
            \<lparr>ID = ''c5q8o3v2a1b4d6e7f9g0'', ConnUser = alice, Fs = 3\<rparr> exampleWorld)
     = (False, exampleRequest\<lparr>Method := ''PUT''\<rparr>)"
proof -
  let ?r = "exampleRequest\<lparr>Method := ''HEAD''\<rparr>"
  let ?w3 = "emit (EvExecutePostConnectHook ''198.51.100.7'' ''DAV'')
               (emit (EvIsBanned ''198.51.100.7'') (emit EvIsNewConnectionAllowed exampleWorld))"
  let ?c = "\<lparr>ID = ''c5q8o3v2a1b4d6e7f9g0'', ConnUser = alice, Fs = 3\<rparr>"
  have env: "IsNewConnectionAllowed exampleEnv" "ProtocolWebDAV exampleEnv = ''DAV''"
    "\<not> IsBanned exampleEnv ''198.51.100.7''"
    "ExecutePostConnectHook exampleEnv ''198.51.100.7'' ''DAV'' = None"
    "GetFilesystem exampleEnv alice ''c5q8o3v2a1b4d6e7f9g0'' = Inr 3"
    by (simp_all add: exampleEnv_def)
  have r1: "checkRemoteAddress exampleEnv ?r = ?r"
    by (simp add: checkRemoteAddress_def headerGet_def xRealIP_def xForwardedFor_def
          exampleEnv_def exampleRequest_def)
  have ip: "GetIPFromRemoteAddress exampleEnv (RemoteAddr exampleRequest) = ''198.51.100.7''"
    by (simp add: exampleEnv_def exampleRequest_def)
  have A: "authErr (fst (authenticate exampleEnv ?r ''198.51.100.7'' ?w3)) = None"
    "authUser (fst (authenticate exampleEnv ?r ''198.51.100.7'' ?w3)) = alice"
    by (simp_all add: auth_defs BasicAuth_def headerGet_def exampleEnv_def exampleRequest_def
          exampleWorld_def)
  have V: "fst (validateUser exampleEnv alice ?r
                  (snd (authenticate exampleEnv ?r ''198.51.100.7'' ?w3)))
           = (''c5q8o3v2a1b4d6e7f9g0'', None)"
    by (simp add: validateUser_def auth_defs BasicAuth_def headerGet_def exampleEnv_def
          exampleRequest_def exampleWorld_def alice_def)
  have P: "fst (checkRequestMethod exampleEnv ?r ?c exampleWorld) = (True, ?r)"
    by (simp add: checkRequestMethod_def Let_def exampleEnv_def exampleRequest_def)
  have head: "fst (ServeHTTP exampleEnv ?r exampleWorld)
       = Written \<lparr>StatusCode = 207,
                  RespHeader = headerSet Map.empty ''Content-Type'' ''text/xml; charset=utf-8'',
                  Body = Bytes []\<rparr>
     \<and> fst (snd (ServeHTTP exampleEnv ?r exampleWorld)) = ?r
     \<and> (\<forall>req ls. EvHandlerServeHTTP req ls \<notin> set (eventsSince exampleWorld
           (snd (snd (ServeHTTP exampleEnv ?r exampleWorld)))))"
    using checkRequestMethod_directory
      [where e = exampleEnv and r = ?r and connection = ?c and w = exampleWorld and fs = 3]
    by (simp add: Let_def r1 ip env A V P)
  have rest: "fst (checkRequestMethod exampleEnv exampleRequest ?c exampleWorld)
       = (False, exampleRequest\<lparr>Method := ''PROPFIND'',
                   Header := (Header exampleRequest)(''Depth'' \<mapsto> [''1''])\<rparr>)
     \<and> fst (checkRequestMethod exampleEnv
              (exampleRequest\<lparr>Header := [''Depth'' \<mapsto> [''0'']]\<rparr>) ?c exampleWorld)
       = (False, exampleRequest\<lparr>Method := ''PROPFIND'', Header := [''Depth'' \<mapsto> [''0'']]\<rparr>)
     \<and> fst (checkRequestMethod exampleEnv (exampleRequest\<lparr>URLPath := ''/docs/a.txt''\<rparr>)
              ?c exampleWorld)
       = (False, exampleRequest\<lparr>URLPath := ''/docs/a.txt''\<rparr>)
     \<and> fst (checkRequestMethod exampleEnv (exampleRequest\<lparr>Method := ''PUT''\<rparr>) ?c exampleWorld)
       = (False, exampleRequest\<lparr>Method := ''PUT''\<rparr>)"
    by (simp add: checkRequestMethod_def Let_def headerGet_def headerAdd_def exampleEnv_def
          exampleRequest_def)
  show ?thesis
    using head rest by blast
qed

text \<open>
  C6 fails as stated: for a GET on a directory whose \<^verbatim>\<open>Depth\<close> header is present
  with an empty value, the existing header is not left untouched (lines 120-122:
  \<^verbatim>\<open>Get\<close> returns the empty first value, so the guard holds and \<^verbatim>\<open>Add\<close> changes
  the header).
\<close>

theorem checkRequestMethod_depth_counterexample:
  "Header (exampleRequest\<lparr>Header := [''Depth'' \<mapsto> [[]]]\<rparr>) ''Depth'' = Some [[]]
   \<and> fst (checkRequestMethod exampleEnv (exampleRequest\<lparr>Header := [''Depth'' \<mapsto> [[]]]\<rparr>)
            \<lparr>ID = ''c5q8o3v2a1b4d6e7f9g0'', ConnUser = alice, Fs = 3\<rparr> exampleWorld)
     = (False, exampleRequest\<lparr>Method := ''PROPFIND'', Header := [''Depth'' \<mapsto> [[], ''1'']]\<rparr>)
   \<and> [''Depth'' \<mapsto> [[], ''1'']] ''Depth'' \<noteq> [''Depth'' \<mapsto> [[]]] ''Depth''"
  by (simp add: checkRequestMethod_def Let_def headerGet_def headerAdd_def exampleEnv_def
        exampleRequest_def)

end
